theory Spec2Isabelle
  imports Complex_Main "HOL-Library.Signed_Division"
begin

section \<open>Value types used by MapView\<close>

text \<open>
  The embedding follows \<^verbatim>\<open>src/client/mapview.cpp\<close>. The headers it includes
  (\<^verbatim>\<open>mapview.h\<close>, \<^verbatim>\<open>position.h\<close>, the framework's \<^verbatim>\<open>size.h\<close>, \<^verbatim>\<open>point.h\<close>,
  \<^verbatim>\<open>rect.h\<close>, \<^verbatim>\<open>timer.h\<close>, \<^verbatim>\<open>const.h\<close>) are not among the sources. What the
  functions of \<^verbatim>\<open>mapview.cpp\<close> need from them is either modelled from the
  specification (and marked so) or taken as a field of the environment record
  \<open>Env\<close> below, so that every theorem holds for each possible choice.

  C++ \<^verbatim>\<open>int\<close> values are modelled as \<open>int\<close>; where the source computes in an
  unsigned type of fixed width the reduction modulo \<open>2 ^ w\<close> is written out.
  Division and remainder of C++ truncate towards zero: \<open>sdiv\<close> and \<open>smod\<close>.
\<close>

record Point =
  pt_x :: int
  pt_y :: int

record Size =
  width :: int
  height :: int

record Rect =
  rect_x :: int
  rect_y :: int
  rect_width :: int
  rect_height :: int

record Position =
  pos_x :: int
  pos_y :: int
  pos_z :: nat

record AwareRange =
  ar_left :: nat
  ar_top :: nat
  ar_right :: nat
  ar_bottom :: nat

datatype FloorViewMode = NORMAL | ALWAYS | ALWAYS_WITH_TRANSPARENCY | LOCKED

datatype AntialiasingMode =
  ANTIALIASING_DISABLED | ANTIALIASING_ENABLED | ANTIALIASING_SMOOTH_RETRO

text \<open>Conversions to the fixed-width unsigned types of the source.\<close>

definition u8 :: "int \<Rightarrow> nat" where
  "u8 v = nat (v mod 256)"

definition u16 :: "int \<Rightarrow> nat" where
  "u16 v = nat (v mod 65536)"

definition u32 :: "int \<Rightarrow> int" where
  "u32 v = v mod 2 ^ 32"

definition s32 :: "int \<Rightarrow> int" where
  \<comment> \<open>the value an \<^verbatim>\<open>int\<close> holds (two's complement, 32 bits)\<close>
  "s32 v = (v + 2 ^ 31) mod 2 ^ 32 - 2 ^ 31"

definition s8 :: "int \<Rightarrow> int" where
  \<comment> \<open>the value an \<^verbatim>\<open>int_fast8_t\<close> holds: a signed type of 8 bits on the platforms
      the client is built for\<close>
  "s8 v = (v + 128) mod 256 - 128"

definition std_clamp :: "int \<Rightarrow> int \<Rightarrow> int \<Rightarrow> int" where
  "std_clamp v lo hi = (if v < lo then lo else if hi < v then hi else v)"

subsection \<open>Constants of const.h\<close>

text \<open>
  Modelled from the spec: \<^verbatim>\<open>const.h\<close> is absent. The specification's scenarios fix
  \<open>SPRITE_SIZE = 32\<close>, the sea floor \<open>7\<close>, the first underground floor \<open>8\<close> and an
  underground awareness range of \<open>2\<close>. \<open>MAX_Z\<close> is given no number there; it is a
  field of the environment.
\<close>

definition SPRITE_SIZE :: int where
  "SPRITE_SIZE = 32"

definition SEA_FLOOR :: nat where
  "SEA_FLOOR = 7"

definition UNDERGROUND_FLOOR :: nat where
  "UNDERGROUND_FLOOR = 8"

definition AWARE_UNDEGROUND_FLOOR_RANGE :: nat where
  "AWARE_UNDEGROUND_FLOOR_RANGE = 2"

subsection \<open>Size, Point and Rect\<close>

text \<open>
  Modelled from the spec: \<^verbatim>\<open>size.h\<close>, \<^verbatim>\<open>point.h\<close> and \<^verbatim>\<open>rect.h\<close> are absent. Sizes
  and points are pairs of integers with component-wise arithmetic ("draw dimension
  = visible + 3"); a size is below the minimum when one of its components is
  ("visible dimension components are always odd and \<open>\<ge> 3\<close>"). The components
  are machine integers (\<^verbatim>\<open>int\<close>, as \<^verbatim>\<open>width() % 2\<close> and the comparison with
  \<^verbatim>\<open>getMaxTextureSize()\<close> use them): a product that leaves the range of \<^verbatim>\<open>int\<close>
  wraps around, as it does in the compiled client.
\<close>

definition Size_add :: "Size \<Rightarrow> int \<Rightarrow> Size" where
  "Size_add a n = \<lparr>width = width a + n, height = height a + n\<rparr>"

definition Size_mul :: "Size \<Rightarrow> int \<Rightarrow> Size" where
  "Size_mul a n = \<lparr>width = s32 (width a * n), height = s32 (height a * n)\<rparr>"

definition Size_less :: "Size \<Rightarrow> Size \<Rightarrow> bool" where
  "Size_less a b = (width a < width b \<or> height a < height b)"

definition Size_square :: "int \<Rightarrow> Size" where
  \<comment> \<open>\<^verbatim>\<open>Size(n)\<close>\<close>
  "Size_square n = \<lparr>width = n, height = n\<rparr>"

definition Rect_default :: Rect where
  \<comment> \<open>\<^verbatim>\<open>Rect{}\<close>, the default-constructed rectangle\<close>
  "Rect_default = \<lparr>rect_x = 0, rect_y = 0, rect_width = 0, rect_height = 0\<rparr>"

subsection \<open>Position\<close>

text \<open>
  Modelled from the spec: \<^verbatim>\<open>position.h\<close> is absent. A position is an integer
  \<open>(x, y, z)\<close> with \<open>z\<close> the floor index, and can be translated by \<open>(dx, dy)\<close>.
  \<open>up\<close> moves one floor up (\<open>z - 1\<close>); \<open>coveredUp n\<close> is the diagonal floor shift:
  \<open>n\<close> floors up and \<open>n\<close> tiles to the south-east, the cell that projects onto
  the same screen cell. The specification speaks of an invalid (unknown)
  position and of floors \<open>0..MAX_Z\<close> without saying more; here, as in the upstream
  client, the invalid position is the default-constructed one, whose members
  hold the largest values of a 16-bit \<open>x\<close> and \<open>y\<close> and an 8-bit \<open>z\<close>, and both
  \<open>up\<close> and \<open>coveredUp\<close> refuse (and leave the position as it is) when the result
  would leave the floors \<open>0..MAX_Z\<close> or, for \<open>coveredUp\<close>, the coordinates
  \<open>0..65535\<close>.
\<close>

definition Position_default :: Position where
  "Position_default = \<lparr>pos_x = 65535, pos_y = 65535, pos_z = 255\<rparr>"

definition isValid :: "Position \<Rightarrow> bool" where
  "isValid p = (\<not> (pos_x p = 65535 \<and> pos_y p = 65535 \<and> pos_z p = 255))"

definition translated :: "Position \<Rightarrow> int \<Rightarrow> int \<Rightarrow> Position" where
  "translated p dx dy = p\<lparr>pos_x := pos_x p + dx, pos_y := pos_y p + dy\<rparr>"

definition up :: "nat \<Rightarrow> Position \<Rightarrow> Position option" where
  \<comment> \<open>first argument: \<open>MAX_Z\<close>; \<open>None\<close> is the source's \<^verbatim>\<open>false\<close>\<close>
  "up maxz p =
     (if 1 \<le> pos_z p \<and> pos_z p - 1 \<le> maxz then Some (p\<lparr>pos_z := pos_z p - 1\<rparr>) else None)"

definition coveredUp :: "nat \<Rightarrow> int \<Rightarrow> Position \<Rightarrow> Position option" where
  "coveredUp maxz n p =
     (let nx = pos_x p + n; ny = pos_y p + n; nz = int (pos_z p) - n
      in if 0 \<le> nx \<and> nx \<le> 65535 \<and> 0 \<le> ny \<and> ny \<le> 65535 \<and> 0 \<le> nz \<and> nz \<le> int maxz
         then Some \<lparr>pos_x = nx, pos_y = ny, pos_z = nat nz\<rparr> else None)"

definition distance_at_least_3 :: "Position \<Rightarrow> Position \<Rightarrow> bool" where
  \<comment> \<open>\<^verbatim>\<open>a.distance(b) >= 3\<close>: the Euclidean distance in the plane, compared exactly\<close>
  "distance_at_least_3 a b = (9 \<le> (pos_x b - pos_x a)\<^sup>2 + (pos_y b - pos_y a)\<^sup>2)"

section \<open>The world and the view\<close>

record Tile =
  isDrawable :: bool
  hasGround :: bool
  hasSurface :: bool
  hasEffect :: bool
  canShade :: bool
  limitsFloorsView :: "bool \<Rightarrow> bool"
  getCreatures :: "nat list"

text \<open>
  The per-floor cache \<^verbatim>\<open>MapList\<close>: four sequences of tiles in draw order. A cached
  tile is named by its position, under which the map holds it.
\<close>

record MapList =
  grounds :: "Position list"
  surfaces :: "Position list"
  effects :: "Position list"
  shades :: "Position list"

definition MapList_clear :: MapList where
  "MapList_clear = \<lparr>grounds = [], surfaces = [], effects = [], shades = []\<rparr>"

text \<open>
  What a call leaves behind outside the view's own fields: logged errors, the
  notification \<^verbatim>\<open>onFadeInFinished\<close>, and the passes of a frame.
\<close>

datatype Event =
  TraceError string
  | FadeInFinished
  | DrawFloor "nat list"
  | DrawCreatureInformation
  | LightViewDraw
  | DrawText

text \<open>
  The fields of \<^verbatim>\<open>MapView\<close> that the functions of \<^verbatim>\<open>mapview.cpp\<close> modelled here
  read or write. A timer is the opaque value its \<^verbatim>\<open>restart\<close> leaves; a shader is
  named by a number, \<open>None\<close> being \<^verbatim>\<open>nullptr\<close>, and \<open>shader_position\<close> is the position
  stored in each shader object. \<open>m_scaleFactor\<close> is a \<^verbatim>\<open>float\<close> that is only ever
  assigned \<open>1\<close> or \<open>2\<close>. The floor indices are unsigned; their declared width is in
  the absent header, so they are natural numbers here. Not modelled: the light
  view, the draw pools, the mouse position and highlighted tile, the viewport
  tables and the source rectangle of the rectangle cache.
\<close>

record MapView =
  m_visibleDimension :: Size
  m_drawDimension :: Size
  m_tileSize :: nat
  m_scaleFactor :: int
  m_virtualCenterOffset :: Point
  m_rectDimension :: Rect
  m_awareRange :: AwareRange
  m_rectCache_rect :: Rect
  m_refreshVisibleTiles :: bool
  m_refreshVisibleCreatures :: bool
  m_floorMin :: nat
  m_floorMax :: nat
  m_cachedFirstVisibleFloor :: nat
  m_cachedLastVisibleFloor :: nat
  m_lockedFirstVisibleFloor :: int
  m_floorViewMode :: FloorViewMode
  m_lastCameraPosition :: Position
  m_customCameraPosition :: Position
  m_follow :: bool
  m_followingCreature :: "nat option"
  m_moveOffset :: Point
  m_lastFadeLevel :: real
  m_floorFading :: nat
  m_fadingFloorTimers :: "nat \<Rightarrow> int"
  m_cachedVisibleTiles :: "nat \<Rightarrow> MapList"
  m_visibleCreatures :: "nat list"
  m_shader :: "nat option"
  m_nextShader :: "nat option"
  m_shaderSwitchDone :: bool
  m_fadeTimer :: int
  m_fadeInTime :: real
  m_fadeOutTime :: real
  shader_position :: "nat \<Rightarrow> Position"
  m_drawLights :: bool
  events :: "Event list"

text \<open>
  The environment of one call: the collaborators (\<^verbatim>\<open>g_map\<close>, \<^verbatim>\<open>g_graphics\<close>,
  \<^verbatim>\<open>g_app\<close>, the followed creature, the clock behind the timers) as they answer
  during the call, and the parts of the absent headers that the specification
  does not determine: \<open>MAX_Z\<close>, the width of \<^verbatim>\<open>uint_fast32_t\<close>, and the inline
  members \<^verbatim>\<open>canFloorFade\<close>, \<^verbatim>\<open>getFadeLevel\<close>, \<^verbatim>\<open>isDrawingLights\<close> of
  \<^verbatim>\<open>mapview.h\<close> and \<^verbatim>\<open>Position::isInRange\<close>.
\<close>

record Env =
  MAX_Z :: nat
  uint_fast32_bits :: nat
  g_map_getTile :: "Position \<Rightarrow> Tile option"
  g_map_isLookPossible :: "Position \<Rightarrow> bool"
  g_map_getAwareRange :: AwareRange
  g_graphics_getMaxTextureSize :: int
  g_app_isDrawingEffectsOnTop :: bool
  g_shaders_getDefaultMapShader :: "nat option"
  creature_getPosition :: "nat \<Rightarrow> Position"
  Timer_restart :: "int \<Rightarrow> int"
  Timer_elapsed_millis :: "int \<Rightarrow> int"
  hdr_canFloorFade :: "MapView \<Rightarrow> bool"
  hdr_getFadeLevel :: "MapView \<Rightarrow> nat \<Rightarrow> real"
  hdr_isDrawingLights :: "MapView \<Rightarrow> bool"
  Position_isInRange :: "Position \<Rightarrow> Position \<Rightarrow> int \<Rightarrow> int \<Rightarrow> int \<Rightarrow> int \<Rightarrow> bool"

section \<open>Small members declared in mapview.h\<close>

text \<open>
  Modelled from the spec: \<^verbatim>\<open>mapview.h\<close> is absent. The camera is the followed
  creature's position when following is on and a creature is set, and the
  custom position otherwise; the dirty flags "refresh tiles" and "refresh
  creatures" are set by the two \<^verbatim>\<open>refresh...\<close> members and consumed by the next
  refresh; \<^verbatim>\<open>resetLastCamera\<close> forgets the last camera position.
\<close>

definition isFollowingCreature :: "MapView \<Rightarrow> bool" where
  "isFollowingCreature s = (m_followingCreature s \<noteq> None \<and> m_follow s)"

definition refreshVisibleTiles :: "MapView \<Rightarrow> MapView" where
  "refreshVisibleTiles s = s\<lparr>m_refreshVisibleTiles := True\<rparr>"

definition refreshVisibleCreatures :: "MapView \<Rightarrow> MapView" where
  "refreshVisibleCreatures s = s\<lparr>m_refreshVisibleCreatures := True\<rparr>"

definition resetLastCamera :: "MapView \<Rightarrow> MapView" where
  "resetLastCamera s = s\<lparr>m_lastCameraPosition := Position_default\<rparr>"

definition traceError :: "string \<Rightarrow> MapView \<Rightarrow> MapView" where
  \<comment> \<open>\<^verbatim>\<open>g_logger.traceError\<close>\<close>
  "traceError msg s = s\<lparr>events := events s @ [TraceError msg]\<rparr>"

section \<open>Functions of mapview.cpp\<close>

definition getCameraPosition :: "Env \<Rightarrow> MapView \<Rightarrow> Position" where
  "getCameraPosition env s =
     (case m_followingCreature s of
        None \<Rightarrow> m_customCameraPosition s
      | Some c \<Rightarrow>
          if isFollowingCreature s then creature_getPosition env c
          else m_customCameraPosition s)"

subsection \<open>move\<close>

definition onCameraMove :: "MapView \<Rightarrow> MapView" where
  \<comment> \<open>the viewport it also updates while following is not modelled\<close>
  "onCameraMove s = s\<lparr>m_rectCache_rect := Rect_default\<rparr>"

definition move :: "int \<Rightarrow> int \<Rightarrow> MapView \<Rightarrow> MapView" where
  "move x y s =
     (let ox = pt_x (m_moveOffset s) + x;
          oy = pt_y (m_moveOffset s) + y;
          cam = m_customCameraPosition s;
          tmpx = ox sdiv SPRITE_SIZE;
          cam1 = (if tmpx \<noteq> 0 then cam\<lparr>pos_x := pos_x cam + tmpx\<rparr> else cam);
          ox1 = (if tmpx \<noteq> 0 then ox smod SPRITE_SIZE else ox);
          tmpy = oy sdiv SPRITE_SIZE;
          cam2 = (if tmpy \<noteq> 0 then cam1\<lparr>pos_y := pos_y cam1 + tmpy\<rparr> else cam1);
          oy1 = (if tmpy \<noteq> 0 then oy smod SPRITE_SIZE else oy);
          requestTilesUpdate = (tmpx \<noteq> 0 \<or> tmpy \<noteq> 0);
          s1 = s\<lparr>m_moveOffset := \<lparr>pt_x = ox1, pt_y = oy1\<rparr>,
                 m_customCameraPosition := cam2,
                 m_rectCache_rect := Rect_default\<rparr>;
          s2 = (if requestTilesUpdate then refreshVisibleTiles s1 else s1)
      in onCameraMove s2)"

subsection \<open>setShader\<close>

definition setShader :: "Env \<Rightarrow> nat option \<Rightarrow> real \<Rightarrow> real \<Rightarrow> MapView \<Rightarrow> MapView" where
  "setShader env shader fadein fadeout s =
     (if m_shader s = shader then s
      else
        let s1 = (if 0 < fadeout \<and> m_shader s \<noteq> None
                  then s\<lparr>m_nextShader := shader, m_shaderSwitchDone := False\<rparr>
                  else s\<lparr>m_shader := shader, m_nextShader := None, m_shaderSwitchDone := True\<rparr>);
            s2 = s1\<lparr>m_fadeTimer := Timer_restart env 0,
                    m_fadeInTime := fadein, m_fadeOutTime := fadeout\<rparr>
        in (case shader of
              None \<Rightarrow> s2
            | Some sh \<Rightarrow>
                s2\<lparr>shader_position := (shader_position s2)(sh := getCameraPosition env s2)\<rparr>))"

subsection \<open>updateGeometry, setVisibleDimension, setAntiAliasingMode\<close>

definition updateGeometry :: "Env \<Rightarrow> Size \<Rightarrow> MapView \<Rightarrow> MapView" where
  "updateGeometry env visibleDimension s =
     (let tileSize = u8 (SPRITE_SIZE * m_scaleFactor s);
          drawDimension = Size_add visibleDimension 3;
          bufferSize = Size_mul drawDimension (int tileSize)
      in if g_graphics_getMaxTextureSize env < width bufferSize
            \<or> g_graphics_getMaxTextureSize env < height bufferSize
         then traceError ''reached max zoom out'' s
         else
           let left = min (u16 (int (ar_left (g_map_getAwareRange env))))
                          (u16 (width drawDimension sdiv 2 - 1));
               top = min (u16 (int (ar_top (g_map_getAwareRange env))))
                         (u16 (height drawDimension sdiv 2 - 1))
           in refreshVisibleCreatures (refreshVisibleTiles
                (s\<lparr>m_visibleDimension := visibleDimension,
                   m_drawDimension := drawDimension,
                   m_tileSize := tileSize,
                   m_virtualCenterOffset :=
                     \<lparr>pt_x = width drawDimension sdiv 2 - 1,
                      pt_y = height drawDimension sdiv 2 - 1\<rparr>,
                   m_rectDimension :=
                     \<lparr>rect_x = 0, rect_y = 0,
                      rect_width = width bufferSize, rect_height = height bufferSize\<rparr>,
                   m_awareRange :=
                     \<lparr>ar_left = left, ar_top = top, ar_right = left + 1, ar_bottom = top + 1\<rparr>,
                   m_rectCache_rect := Rect_default\<rparr>)))"

definition setVisibleDimension :: "Env \<Rightarrow> Size \<Rightarrow> MapView \<Rightarrow> MapView" where
  "setVisibleDimension env visibleDimension s =
     (if visibleDimension = m_visibleDimension s then s
      else if width visibleDimension smod 2 \<noteq> 1 \<or> height visibleDimension smod 2 \<noteq> 1
      then traceError ''visible dimension must be odd'' s
      else if Size_less visibleDimension (Size_square 3)
      then traceError ''reach max zoom in'' s
      else updateGeometry env visibleDimension s)"

definition setAntiAliasingMode :: "Env \<Rightarrow> AntialiasingMode \<Rightarrow> MapView \<Rightarrow> MapView" where
  "setAntiAliasingMode env mode s =
     (let s1 = s\<lparr>m_scaleFactor := (if mode = ANTIALIASING_SMOOTH_RETRO then 2 else 1)\<rparr>
      in updateGeometry env (m_visibleDimension s1) s1)"

definition MapView_constructor :: "Env \<Rightarrow> MapView \<Rightarrow> MapView" where
  \<comment> \<open>the second argument holds the member initialisers of the absent header\<close>
  "MapView_constructor env s0 =
     setVisibleDimension env \<lparr>width = 15, height = 11\<rparr>
       (s0\<lparr>m_shader := g_shaders_getDefaultMapShader env\<rparr>)"

subsection \<open>The setters and callbacks that only mark the cache dirty\<close>

definition onFloorChange :: "MapView \<Rightarrow> MapView" where
  \<comment> \<open>the ambient light it also updates belongs to the light view\<close>
  "onFloorChange s = refreshVisibleCreatures s"

definition onTileUpdate :: "bool \<Rightarrow> MapView \<Rightarrow> MapView" where
  \<comment> \<open>the argument: the updated thing exists and is a creature\<close>
  "onTileUpdate thingIsCreature s =
     refreshVisibleTiles (if thingIsCreature then refreshVisibleCreatures s else s)"

definition onFadeInFinished :: "MapView \<Rightarrow> MapView" where
  "onFadeInFinished s = refreshVisibleTiles s"

definition onMapCenterChange :: "MapView \<Rightarrow> MapView" where
  "onMapCenterChange s = refreshVisibleTiles s"

definition lockFirstVisibleFloor :: "int \<Rightarrow> MapView \<Rightarrow> MapView" where
  \<comment> \<open>the argument as converted to the declared type of the member\<close>
  "lockFirstVisibleFloor firstVisibleFloor s =
     refreshVisibleTiles (s\<lparr>m_lockedFirstVisibleFloor := firstVisibleFloor\<rparr>)"

definition unlockFirstVisibleFloor :: "MapView \<Rightarrow> MapView" where
  "unlockFirstVisibleFloor s = refreshVisibleTiles (s\<lparr>m_lockedFirstVisibleFloor := - 1\<rparr>)"

definition setFloorViewMode :: "FloorViewMode \<Rightarrow> MapView \<Rightarrow> MapView" where
  "setFloorViewMode floorViewMode s =
     refreshVisibleTiles (resetLastCamera (s\<lparr>m_floorViewMode := floorViewMode\<rparr>))"

definition followCreature :: "nat option \<Rightarrow> MapView \<Rightarrow> MapView" where
  "followCreature creature s =
     refreshVisibleTiles
       (s\<lparr>m_follow := True, m_followingCreature := creature,
          m_lastCameraPosition := Position_default\<rparr>)"

definition setCameraPosition :: "Position \<Rightarrow> MapView \<Rightarrow> MapView" where
  "setCameraPosition pos s =
     refreshVisibleTiles (s\<lparr>m_follow := False, m_customCameraPosition := pos\<rparr>)"

definition setDrawLights :: "bool \<Rightarrow> MapView \<Rightarrow> MapView" where
  \<comment> \<open>the light pool and the light view it also sets up are not modelled\<close>
  "setDrawLights enable s = (if enable = m_drawLights s then s else s\<lparr>m_drawLights := enable\<rparr>)"

subsection \<open>calcFirstVisibleFloor and calcLastVisibleFloor\<close>

definition tileLimitsFloorsView :: "Env \<Rightarrow> Position \<Rightarrow> bool \<Rightarrow> bool" where
  \<comment> \<open>\<^verbatim>\<open>tile && tile->limitsFloorsView(b)\<close> for the tile at a position\<close>
  "tileLimitsFloorsView env p b =
     (case g_map_getTile env p of None \<Rightarrow> False | Some t \<Rightarrow> limitsFloorsView t b)"

text \<open>
  The \<^verbatim>\<open>while\<close> loop over the floors above one tile. It returns the new value
  of \<^verbatim>\<open>firstFloor\<close>: unchanged when the loop ends by its condition, the floor
  below the limiting tile at a \<^verbatim>\<open>break\<close>.
\<close>

function lookUp :: "Env \<Rightarrow> bool \<Rightarrow> nat \<Rightarrow> Position \<Rightarrow> Position \<Rightarrow> nat" where
  "lookUp env isLookPossible firstFloor upperPos coveredPos =
     (case coveredUp (MAX_Z env) 1 coveredPos of
        None \<Rightarrow> firstFloor
      | Some coveredPos' \<Rightarrow>
          (case up (MAX_Z env) upperPos of
             None \<Rightarrow> firstFloor
           | Some upperPos' \<Rightarrow>
               if firstFloor \<le> pos_z upperPos' then
                 (if tileLimitsFloorsView env upperPos' (\<not> isLookPossible)
                  then u8 (int (pos_z upperPos') + 1)
                  else if tileLimitsFloorsView env coveredPos' isLookPossible
                  then u8 (int (pos_z coveredPos') + 1)
                  else lookUp env isLookPossible firstFloor upperPos' coveredPos')
               else firstFloor))"
  by pat_completeness auto
termination
  by (relation "measure (\<lambda>(env, l, f, u, c). pos_z u)") (auto simp: up_def split: if_splits)

declare lookUp.simps [simp del]

definition lookAround :: "Env \<Rightarrow> Position \<Rightarrow> nat \<Rightarrow> int \<Rightarrow> int \<Rightarrow> nat" where
  \<comment> \<open>the body of the two nested loops for one offset \<open>(ix, iy)\<close>\<close>
  "lookAround env cameraPosition firstFloor ix iy =
     (let pos = translated cameraPosition ix iy
      in if (ix = 0 \<and> iy = 0) \<or> (\<bar>ix\<bar> \<noteq> \<bar>iy\<bar> \<and> g_map_isLookPossible env pos)
         then lookUp env (g_map_isLookPossible env pos) firstFloor pos pos
         else firstFloor)"

fun lookAroundAll :: "Env \<Rightarrow> Position \<Rightarrow> nat \<Rightarrow> (int \<times> int) list \<Rightarrow> nat" where
  "lookAroundAll env cameraPosition firstFloor [] = firstFloor"
| "lookAroundAll env cameraPosition firstFloor ((ix, iy) # rest) =
     (if firstFloor < pos_z cameraPosition
      then lookAroundAll env cameraPosition (lookAround env cameraPosition firstFloor ix iy) rest
      else firstFloor)"

definition around3x3 :: "(int \<times> int) list" where
  \<comment> \<open>\<open>ix\<close> from \<open>-1\<close> to \<open>1\<close>, and for each \<open>iy\<close> from \<open>-1\<close> to \<open>1\<close>\<close>
  "around3x3 = [(- 1, - 1), (- 1, 0), (- 1, 1), (0, - 1), (0, 0), (0, 1), (1, - 1), (1, 0), (1, 1)]"

definition calcFirstVisibleFloor :: "Env \<Rightarrow> bool \<Rightarrow> MapView \<Rightarrow> nat" where
  "calcFirstVisibleFloor env checkLimitsFloorsView s =
     (let z =
        (if m_lockedFirstVisibleFloor s \<noteq> - 1 then u8 (m_lockedFirstVisibleFloor s)
         else
           let cameraPosition = getCameraPosition env s
           in if isValid cameraPosition then
                (let firstFloor =
                   (if SEA_FLOOR < pos_z cameraPosition
                    then max (u8 (int (pos_z cameraPosition) - int AWARE_UNDEGROUND_FLOOR_RANGE))
                             (u8 (int UNDERGROUND_FLOOR))
                    else 0)
                 in if checkLimitsFloorsView
                    then lookAroundAll env cameraPosition firstFloor around3x3
                    else firstFloor)
              else SEA_FLOOR)
      in u8 (std_clamp (int z) 0 (int (MAX_Z env))))"

definition calcLastVisibleFloor :: "Env \<Rightarrow> MapView \<Rightarrow> nat" where
  "calcLastVisibleFloor env s =
     (let cameraPosition = getCameraPosition env s;
          z0 = (if isValid cameraPosition then
                  (if SEA_FLOOR < pos_z cameraPosition
                   then u8 (int (pos_z cameraPosition) + int AWARE_UNDEGROUND_FLOOR_RANGE)
                   else SEA_FLOOR)
                else SEA_FLOOR);
          z1 = (if m_lockedFirstVisibleFloor s \<noteq> - 1
                then u8 (max (m_lockedFirstVisibleFloor s) (int z0)) else z0)
      in u8 (std_clamp (int z1) 0 (int (MAX_Z env))))"

subsection \<open>updateVisibleThings\<close>

text \<open>
  The \<^verbatim>\<open>do ... while (++m_floorMin <= m_floorMax)\<close> loop that clears the cache. Its
  counter is the member \<^verbatim>\<open>m_floorMin\<close> itself; the loop returns the cache and the
  value the member is left with.
\<close>

function clearLoop :: "(nat \<Rightarrow> MapList) \<Rightarrow> nat \<Rightarrow> nat \<Rightarrow> (nat \<Rightarrow> MapList) \<times> nat" where
  "clearLoop cache floorMin floorMax =
     (let cache' = cache(floorMin := MapList_clear);
          floorMin' = floorMin + 1
      in if floorMin' \<le> floorMax then clearLoop cache' floorMin' floorMax
         else (cache', floorMin'))"
  by pat_completeness auto
termination
  by (relation "measure (\<lambda>(c, lo, hi). Suc hi - lo)") auto

declare clearLoop.simps [simp del]

definition clearVisibleTilesCache :: "MapView \<Rightarrow> MapView" where
  "clearVisibleTilesCache s =
     (case clearLoop (m_cachedVisibleTiles s) (m_floorMin s) (m_floorMax s) of
        (cache, floorMin) \<Rightarrow> s\<lparr>m_cachedVisibleTiles := cache, m_floorMin := floorMin\<rparr>)"

definition updateFloorRange :: "Env \<Rightarrow> Position \<Rightarrow> MapView \<Rightarrow> MapView" where
  \<comment> \<open>the block run when the camera is not where the last refresh saw it\<close>
  "updateFloorRange env cameraPosition s =
     (let s1 = (if pos_z (m_lastCameraPosition s) \<noteq> pos_z cameraPosition
                then onFloorChange s else s);
          cachedFirstVisibleFloor = calcFirstVisibleFloor env (m_floorViewMode s1 \<noteq> ALWAYS) s1;
          cachedLastVisibleFloor0 = calcLastVisibleFloor env s1;
          cachedLastVisibleFloor =
            (if cachedLastVisibleFloor0 < cachedFirstVisibleFloor
             then cachedFirstVisibleFloor else cachedLastVisibleFloor0)
      in s1\<lparr>m_cachedFirstVisibleFloor := cachedFirstVisibleFloor,
             m_cachedLastVisibleFloor := cachedLastVisibleFloor,
             m_floorMin := pos_z cameraPosition,
             m_floorMax := pos_z cameraPosition\<rparr>)"

definition floorsDown :: "nat \<Rightarrow> nat \<Rightarrow> nat list" where
  \<comment> \<open>\<^verbatim>\<open>for (iz = last; iz >= first; --iz)\<close> with a counter of type \<^verbatim>\<open>int\<close> or
      \<^verbatim>\<open>int_fast32_t\<close>, which holds every floor\<close>
  "floorsDown lastFloor firstFloor = rev [firstFloor ..< Suc lastFloor]"

definition restartShifted :: "Env \<Rightarrow> MapView \<Rightarrow> nat \<Rightarrow> (nat \<Rightarrow> int) \<Rightarrow> (nat \<Rightarrow> int)" where
  "restartShifted env s iz timers =
     (let shift = max 0 (int (m_floorFading s) - Timer_elapsed_millis env (timers iz))
      in timers(iz := Timer_restart env (shift * 1000)))"

definition updateFading :: "Env \<Rightarrow> Position \<Rightarrow> nat \<Rightarrow> nat \<Rightarrow> MapView \<Rightarrow> MapView" where
  "updateFading env cameraPosition prevFirstVisibleFloor cachedFirstVisibleFloor s =
     (if \<not> isValid (m_lastCameraPosition s)
         \<or> pos_z (m_lastCameraPosition s) \<noteq> pos_z cameraPosition
         \<or> distance_at_least_3 (m_lastCameraPosition s) cameraPosition
      then s\<lparr>m_fadingFloorTimers :=
               fold (\<lambda>iz timers. timers(iz := Timer_restart env (int (m_floorFading s) * 1000)))
                 (floorsDown (m_cachedLastVisibleFloor s) cachedFirstVisibleFloor)
                 (m_fadingFloorTimers s)\<rparr>
      else if prevFirstVisibleFloor < m_cachedFirstVisibleFloor s
      then s\<lparr>m_fadingFloorTimers :=
               fold (restartShifted env s)
                 [prevFirstVisibleFloor ..< m_cachedFirstVisibleFloor s]
                 (m_fadingFloorTimers s)\<rparr>
      else if m_cachedFirstVisibleFloor s < prevFirstVisibleFloor
      then s\<lparr>m_lastFadeLevel := 0,
             m_fadingFloorTimers :=
               fold (restartShifted env s)
                 [m_cachedFirstVisibleFloor s ..< prevFirstVisibleFloor]
                 (m_fadingFloorTimers s)\<rparr>
      else s)"

text \<open>
  The enumeration of the grid. \<^verbatim>\<open>diagonal\<close> is a \<^verbatim>\<open>uint_fast32_t\<close>, \<^verbatim>\<open>advance\<close> a
  \<^verbatim>\<open>uint32_t\<close> computed by \<^verbatim>\<open>std::max<uint32_t>\<close> from the unsigned difference
  \<^verbatim>\<open>diagonal - height\<close> and \<open>0\<close>; both are converted to \<^verbatim>\<open>int\<close> for \<open>iy\<close> and \<open>ix\<close>.
\<close>

definition diagonalStart :: "nat \<Rightarrow> int \<Rightarrow> int \<Rightarrow> int \<times> int" where
  \<comment> \<open>the initial \<open>(ix, iy)\<close> of the inner loop; first argument: the bits of \<^verbatim>\<open>uint_fast32_t\<close>\<close>
  "diagonalStart bits h diagonal =
     (let advance = max (u32 ((diagonal - h) mod 2 ^ bits)) (u32 0)
      in (s32 advance, s32 ((diagonal - advance) mod 2 ^ bits)))"

function diagonalLoop :: "int \<Rightarrow> int \<Rightarrow> int \<Rightarrow> (int \<times> int) list" where
  "diagonalLoop w ix iy =
     (if 0 \<le> iy \<and> ix < w then (ix, iy) # diagonalLoop w (ix + 1) (iy - 1) else [])"
  by pat_completeness auto
termination
  by (relation "measure (\<lambda>(w, ix, iy). nat (iy + 1))") auto

declare diagonalLoop.simps [simp del]

definition diagonalCells :: "nat \<Rightarrow> int \<Rightarrow> int \<Rightarrow> (int \<times> int) list" where
  \<comment> \<open>the cells \<open>(ix, iy)\<close> in the order in which the two inner loops visit them\<close>
  "diagonalCells bits w h =
     (let numDiagonals = u32 (w + h - 1)
      in concat (map (\<lambda>diagonal.
                        case diagonalStart bits h diagonal of (ix, iy) \<Rightarrow> diagonalLoop w ix iy)
                   (map int [0 ..< nat numDiagonals])))"

definition isInRange :: "Env \<Rightarrow> MapView \<Rightarrow> Position \<Rightarrow> bool" where
  "isInRange env s pos =
     Position_isInRange env (getCameraPosition env s) pos
       (int (ar_left (m_awareRange s)) - 1) (int (ar_right (m_awareRange s)) - 2)
       (int (ar_top (m_awareRange s)) - 1) (int (ar_bottom (m_awareRange s)) - 2)"

definition collectCreatures :: "Env \<Rightarrow> Tile \<Rightarrow> Position \<Rightarrow> MapView \<Rightarrow> MapView" where
  \<comment> \<open>the tile's creatures, last to first, appended to \<^verbatim>\<open>m_visibleCreatures\<close>\<close>
  "collectCreatures env tile tilePos s =
     (if m_refreshVisibleCreatures s \<and> isInRange env s tilePos \<and> getCreatures tile \<noteq> []
      then s\<lparr>m_visibleCreatures := m_visibleCreatures s @ rev (getCreatures tile)\<rparr>
      else s)"

definition cacheTile :: "Env \<Rightarrow> MapView \<Rightarrow> Tile \<Rightarrow> Position \<Rightarrow> MapList \<Rightarrow> MapList" where
  \<comment> \<open>the \<^verbatim>\<open>push_back\<close>s of one tile into the lists of its floor\<close>
  "cacheTile env s tile tilePos floor0 =
     (let floor1 = (if hdr_isDrawingLights env s \<and> canShade tile
                    then floor0\<lparr>shades := shades floor0 @ [tilePos]\<rparr> else floor0);
          floor2 = (if hasGround tile
                    then floor1\<lparr>grounds := grounds floor1 @ [tilePos]\<rparr> else floor1);
          floor3 = (if hasSurface tile
                    then floor2\<lparr>surfaces := surfaces floor2 @ [tilePos]\<rparr> else floor2)
      in if g_app_isDrawingEffectsOnTop env \<and> hasEffect tile
         then floor3\<lparr>effects := effects floor3 @ [tilePos]\<rparr> else floor3)"

definition widenFloorRange :: "nat \<Rightarrow> MapView \<Rightarrow> MapView" where
  \<comment> \<open>\<^verbatim>\<open>addTile\<close> is always true in the source, so every cached tile widens the range\<close>
  "widenFloorRange iz s =
     (if iz < m_floorMin s then s\<lparr>m_floorMin := iz\<rparr>
      else if m_floorMax s < iz then s\<lparr>m_floorMax := iz\<rparr>
      else s)"

definition visitCell :: "Env \<Rightarrow> Position \<Rightarrow> nat \<Rightarrow> int \<times> int \<Rightarrow> MapView \<Rightarrow> MapView" where
  \<comment> \<open>the body of the innermost loop for floor \<open>iz\<close> and cell \<open>(ix, iy)\<close>\<close>
  "visitCell env cameraPosition iz cell s =
     (let tilePos0 = translated cameraPosition
                       (fst cell - pt_x (m_virtualCenterOffset s))
                       (snd cell - pt_y (m_virtualCenterOffset s));
          tilePos = (case coveredUp (MAX_Z env) (int (pos_z cameraPosition) - int iz) tilePos0 of
                       None \<Rightarrow> tilePos0 | Some p \<Rightarrow> p)
      in case g_map_getTile env tilePos of
           None \<Rightarrow> s
         | Some tile \<Rightarrow>
             if \<not> isDrawable tile then s
             else
               let s1 = collectCreatures env tile tilePos s;
                   s2 = s1\<lparr>m_cachedVisibleTiles :=
                            (m_cachedVisibleTiles s1)
                              (iz := cacheTile env s1 tile tilePos (m_cachedVisibleTiles s1 iz))\<rparr>
               in widenFloorRange iz s2)"

definition cacheVisibleTiles :: "Env \<Rightarrow> Position \<Rightarrow> nat \<Rightarrow> MapView \<Rightarrow> MapView" where
  "cacheVisibleTiles env cameraPosition cachedFirstVisibleFloor s =
     fold (\<lambda>iz. fold (visitCell env cameraPosition iz)
                   (diagonalCells (uint_fast32_bits env)
                      (width (m_drawDimension s)) (height (m_drawDimension s))))
       (floorsDown (m_cachedLastVisibleFloor s) cachedFirstVisibleFloor) s"

definition beginRefresh :: "Position \<Rightarrow> MapView \<Rightarrow> MapView" where
  \<comment> \<open>clear the cache, clear the creatures when they are refreshed, set the lock\<close>
  "beginRefresh cameraPosition s =
     (let s1 = clearVisibleTilesCache s;
          s2 = (if m_refreshVisibleCreatures s1 then s1\<lparr>m_visibleCreatures := []\<rparr> else s1)
      in s2\<lparr>m_lockedFirstVisibleFloor :=
              (if m_floorViewMode s2 = LOCKED then int (pos_z cameraPosition) else - 1)\<rparr>)"

definition refreshFloorRange :: "Env \<Rightarrow> Position \<Rightarrow> MapView \<Rightarrow> MapView" where
  "refreshFloorRange env cameraPosition s =
     (if m_lastCameraPosition s \<noteq> cameraPosition
      then updateFloorRange env cameraPosition s else s)"

definition firstFloorToCache :: "Env \<Rightarrow> MapView \<Rightarrow> nat" where
  \<comment> \<open>the local \<^verbatim>\<open>cachedFirstVisibleFloor\<close> that bounds the fading and caching loops\<close>
  "firstFloorToCache env s =
     (if m_floorViewMode s = ALWAYS_WITH_TRANSPARENCY \<or> hdr_canFloorFade env s
      then calcFirstVisibleFloor env False s
      else m_cachedFirstVisibleFloor s)"

definition updateVisibleThings :: "Env \<Rightarrow> MapView \<Rightarrow> MapView" where
  "updateVisibleThings env s =
     (let cameraPosition = getCameraPosition env s
      in if \<not> isValid cameraPosition then s
         else
           let s3 = beginRefresh cameraPosition s;
               prevFirstVisibleFloor = m_cachedFirstVisibleFloor s3;
               s4 = refreshFloorRange env cameraPosition s3;
               cachedFirstVisibleFloor = firstFloorToCache env s4;
               s5 = updateFading env cameraPosition prevFirstVisibleFloor cachedFirstVisibleFloor s4;
               s6 = s5\<lparr>m_lastCameraPosition := cameraPosition\<rparr>;
               s7 = cacheVisibleTiles env cameraPosition cachedFirstVisibleFloor s6
           in s7\<lparr>m_refreshVisibleCreatures := False, m_refreshVisibleTiles := False\<rparr>)"

subsection \<open>draw\<close>

fun floorsDrawn :: "Env \<Rightarrow> MapView \<Rightarrow> nat list \<Rightarrow> nat list" where
  \<comment> \<open>the floors whose loop body \<^verbatim>\<open>drawFloor\<close> runs: it breaks at a fade level of \<open>0\<close>\<close>
  "floorsDrawn env s [] = []"
| "floorsDrawn env s (z # zs) =
     (if hdr_canFloorFade env s \<and> hdr_getFadeLevel env s z = 0 then []
      else z # floorsDrawn env s zs)"

definition floorsToDraw :: "nat \<Rightarrow> nat \<Rightarrow> nat list" where
  \<comment> \<open>\<^verbatim>\<open>for (int_fast8_t z = m_floorMax; z >= m_floorMin; --z)\<close>: the counter starts
      at the signed 8-bit value of \<^verbatim>\<open>m_floorMax\<close>, so a floor of \<open>128\<close> or more starts it
      below every \<^verbatim>\<open>m_floorMin\<close> and the body never runs\<close>
  "floorsToDraw floorMax floorMin =
     (if s8 (int floorMax) < int floorMin then []
      else floorsDown (nat (s8 (int floorMax))) floorMin)"

definition drawFloor :: "Env \<Rightarrow> MapView \<Rightarrow> MapView" where
  "drawFloor env s =
     s\<lparr>events := events s @ [DrawFloor (floorsDrawn env s (floorsToDraw (m_floorMax s) (m_floorMin s)))]\<rparr>"

definition drawCreatureInformation :: "MapView \<Rightarrow> MapView" where
  \<comment> \<open>the event records the call; what the pass then draws is not modelled\<close>
  "drawCreatureInformation s = s\<lparr>events := events s @ [DrawCreatureInformation]\<rparr>"

definition drawText :: "MapView \<Rightarrow> MapView" where
  \<comment> \<open>the event records the call; what the pass then draws is not modelled\<close>
  "drawText s = s\<lparr>events := events s @ [DrawText]\<rparr>"

definition refreshIfNeeded :: "Env \<Rightarrow> MapView \<Rightarrow> MapView" where
  \<comment> \<open>update visible tiles cache when needed\<close>
  "refreshIfNeeded env s = (if m_refreshVisibleTiles s then updateVisibleThings env s else s)"

definition updateRectCache :: "Rect \<Rightarrow> MapView \<Rightarrow> MapView" where
  "updateRectCache rect s =
     (if m_rectCache_rect s \<noteq> rect then s\<lparr>m_rectCache_rect := rect\<rparr> else s)"

definition checkFadeInFinished :: "Env \<Rightarrow> MapView \<Rightarrow> MapView" where
  \<comment> \<open>the event \<open>FadeInFinished\<close> records the call of \<^verbatim>\<open>onFadeInFinished\<close>\<close>
  "checkFadeInFinished env s =
     (if hdr_canFloorFade env s then
        (let fadeLevel = hdr_getFadeLevel env s (m_cachedFirstVisibleFloor s)
         in if m_lastFadeLevel s \<noteq> fadeLevel \<and> fadeLevel = 1
            then (onFadeInFinished (s\<lparr>events := events s @ [FadeInFinished]\<rparr>))
                   \<lparr>m_lastFadeLevel := fadeLevel\<rparr>
            else s)
      else s)"

definition drawOverlays :: "Env \<Rightarrow> MapView \<Rightarrow> MapView" where
  \<comment> \<open>what \<^verbatim>\<open>draw\<close> does after \<^verbatim>\<open>drawFloor\<close>\<close>
  "drawOverlays env s =
     (if \<not> isValid (getCameraPosition env s) then s
      else
        let s1 = drawCreatureInformation s;
            s2 = (if m_drawLights s1 then s1\<lparr>events := events s1 @ [LightViewDraw]\<rparr> else s1)
        in drawText s2)"

definition draw :: "Env \<Rightarrow> Rect \<Rightarrow> MapView \<Rightarrow> MapView" where
  "draw env rect s =
     drawOverlays env
       (drawFloor env
          (checkFadeInFinished env
             (updateRectCache rect
                (refreshIfNeeded env s))))"

section \<open>Vocabulary of the claims\<close>

definition frameEvents :: "Env \<Rightarrow> Rect \<Rightarrow> MapView \<Rightarrow> Event list" where
  \<comment> \<open>the events that one call of \<^verbatim>\<open>draw\<close> adds\<close>
  "frameEvents env rect s = drop (length (events s)) (events (draw env rect s))"

definition bufferTooLarge :: "Env \<Rightarrow> MapView \<Rightarrow> Size \<Rightarrow> bool" where
  \<comment> \<open>the derived buffer size (visible dimension plus 3, times tile size) exceeds the
      maximum texture size\<close>
  "bufferTooLarge env s d =
     (g_graphics_getMaxTextureSize env < (width d + 3) * int (u8 (SPRITE_SIZE * m_scaleFactor s))
      \<or> g_graphics_getMaxTextureSize env < (height d + 3) * int (u8 (SPRITE_SIZE * m_scaleFactor s)))"


definition bufferSizeOverflows :: "MapView \<Rightarrow> Size \<Rightarrow> bool" where
  \<comment> \<open>a component of the derived buffer size is too large for the \<^verbatim>\<open>int\<close> that holds it\<close>
  "bufferSizeOverflows s d =
     (2 ^ 31 \<le> (width d + 3) * int (u8 (SPRITE_SIZE * m_scaleFactor s))
      \<or> 2 ^ 31 \<le> (height d + 3) * int (u8 (SPRITE_SIZE * m_scaleFactor s)))"

definition geometryConsistent :: "MapView \<Rightarrow> bool" where
  \<comment> \<open>what every successful \<^verbatim>\<open>updateGeometry\<close> establishes\<close>
  "geometryConsistent s = (m_drawDimension s = Size_add (m_visibleDimension s) 3)"

definition refreshFrame :: "MapView \<Rightarrow> MapView \<Rightarrow> bool" where
  \<comment> \<open>the second view differs from the first at most in the members that
      \<^verbatim>\<open>updateVisibleThings\<close> writes\<close>
  "refreshFrame s s' =
     (s' = s\<lparr>m_cachedVisibleTiles := m_cachedVisibleTiles s',
              m_floorMin := m_floorMin s',
              m_floorMax := m_floorMax s',
              m_visibleCreatures := m_visibleCreatures s',
              m_lockedFirstVisibleFloor := m_lockedFirstVisibleFloor s',
              m_refreshVisibleCreatures := m_refreshVisibleCreatures s',
              m_refreshVisibleTiles := m_refreshVisibleTiles s',
              m_cachedFirstVisibleFloor := m_cachedFirstVisibleFloor s',
              m_cachedLastVisibleFloor := m_cachedLastVisibleFloor s',
              m_fadingFloorTimers := m_fadingFloorTimers s',
              m_lastFadeLevel := m_lastFadeLevel s',
              m_lastCameraPosition := m_lastCameraPosition s'\<rparr>)"

definition stateAtFadeCheck :: "Env \<Rightarrow> Rect \<Rightarrow> MapView \<Rightarrow> MapView" where
  \<comment> \<open>the view as \<^verbatim>\<open>draw\<close> has it when it compares the fade levels\<close>
  "stateAtFadeCheck env rect s = updateRectCache rect (refreshIfNeeded env s)"

definition floorRevealed :: "Env \<Rightarrow> MapView \<Rightarrow> bool" where
  \<comment> \<open>a refresh would take the "showing floor" branch: the camera is valid and did not
      jump, and the first visible floor moves to a smaller index\<close>
  "floorRevealed env s =
     (let cameraPosition = getCameraPosition env s
      in isValid cameraPosition
         \<and> isValid (m_lastCameraPosition s)
         \<and> pos_z (m_lastCameraPosition s) = pos_z cameraPosition
         \<and> \<not> distance_at_least_3 (m_lastCameraPosition s) cameraPosition
         \<and> m_cachedFirstVisibleFloor
               (refreshFloorRange env cameraPosition (beginRefresh cameraPosition s))
             < m_cachedFirstVisibleFloor s)"

text \<open>
  The calls a client can make, each with the environment in which it runs, and
  a run of such calls.
\<close>

datatype Call =
  Draw Rect
  | Move int int
  | SetCameraPosition Position
  | FollowCreature "nat option"
  | SetFloorViewMode FloorViewMode
  | SetVisibleDimension Size
  | SetAntiAliasingMode AntialiasingMode
  | SetShader "nat option" real real
  | LockFirstVisibleFloor int
  | UnlockFirstVisibleFloor
  | OnTileUpdate bool
  | OnMapCenterChange
  | SetDrawLights bool

fun call :: "Env \<Rightarrow> Call \<Rightarrow> MapView \<Rightarrow> MapView" where
  "call env (Draw rect) s = draw env rect s"
| "call env (Move x y) s = move x y s"
| "call env (SetCameraPosition pos) s = setCameraPosition pos s"
| "call env (FollowCreature c) s = followCreature c s"
| "call env (SetFloorViewMode m) s = setFloorViewMode m s"
| "call env (SetVisibleDimension d) s = setVisibleDimension env d s"
| "call env (SetAntiAliasingMode m) s = setAntiAliasingMode env m s"
| "call env (SetShader sh fadein fadeout) s = setShader env sh fadein fadeout s"
| "call env (LockFirstVisibleFloor z) s = lockFirstVisibleFloor z s"
| "call env UnlockFirstVisibleFloor s = unlockFirstVisibleFloor s"
| "call env (OnTileUpdate b) s = onTileUpdate b s"
| "call env OnMapCenterChange s = onMapCenterChange s"
| "call env (SetDrawLights enable) s = setDrawLights enable s"

fun run :: "(Env \<times> Call) list \<Rightarrow> MapView \<Rightarrow> MapView" where
  "run [] s = s"
| "run ((env, c) # cs) s = run cs (call env c s)"

fun revealsFloor :: "Env \<Rightarrow> Call \<Rightarrow> MapView \<Rightarrow> bool" where
  \<comment> \<open>the call is a frame whose refresh reveals a floor\<close>
  "revealsFloor env (Draw rect) s = (m_refreshVisibleTiles s \<and> floorRevealed env s)"
| "revealsFloor env c s = False"

fun noFloorRevealed :: "(Env \<times> Call) list \<Rightarrow> MapView \<Rightarrow> bool" where
  "noFloorRevealed [] s = True"
| "noFloorRevealed ((env, c) # cs) s =
     (\<not> revealsFloor env c s \<and> noFloorRevealed cs (call env c s))"

definition fadeInFinishedCount :: "MapView \<Rightarrow> nat" where
  "fadeInFinishedCount s = length (filter (\<lambda>e. e = FadeInFinished) (events s))"

definition cacheFrame :: "MapView \<Rightarrow> MapView \<Rightarrow> bool" where
  \<comment> \<open>the second view differs from the first at most in the four members that the
      cache builder writes\<close>
  "cacheFrame s s' =
     (s' = s\<lparr>m_visibleCreatures := m_visibleCreatures s',
              m_cachedVisibleTiles := m_cachedVisibleTiles s',
              m_floorMin := m_floorMin s', m_floorMax := m_floorMax s'\<rparr>)"

definition diagonalsBelow :: "int \<Rightarrow> int \<Rightarrow> nat \<Rightarrow> (int \<times> int) list" where
  \<comment> \<open>the first \<open>n\<close> diagonals, each started at \<open>ix = diagonal - h\<close>, \<open>iy = h\<close>\<close>
  "diagonalsBelow w h n = concat (map (\<lambda>d. diagonalLoop w (int d - h) h) [0 ..< n])"

section \<open>A concrete environment and view\<close>

text \<open>
  The inputs at which the theorems below are evaluated: a world without tiles,
  a maximum texture size of \<open>1000\<close> pixels, fading switched off, and a view whose
  members hold no dimension and no camera before the constructor runs.
\<close>

definition example_env :: Env where
  "example_env =
     \<lparr>MAX_Z = 15, uint_fast32_bits = 64,
      g_map_getTile = (\<lambda>p. None),
      g_map_isLookPossible = (\<lambda>p. True),
      g_map_getAwareRange = \<lparr>ar_left = 8, ar_top = 6, ar_right = 9, ar_bottom = 7\<rparr>,
      g_graphics_getMaxTextureSize = 1000,
      g_app_isDrawingEffectsOnTop = False,
      g_shaders_getDefaultMapShader = Some 0,
      creature_getPosition = (\<lambda>c. Position_default),
      Timer_restart = (\<lambda>shift. - shift),
      Timer_elapsed_millis = (\<lambda>t. - t),
      hdr_canFloorFade = (\<lambda>s. False),
      hdr_getFadeLevel = (\<lambda>s z. 1),
      hdr_isDrawingLights = (\<lambda>s. False),
      Position_isInRange = (\<lambda>a b l r t u. True)\<rparr>"

definition blank_view :: MapView where
  "blank_view =
     \<lparr>m_visibleDimension = \<lparr>width = - 1, height = - 1\<rparr>,
      m_drawDimension = \<lparr>width = - 1, height = - 1\<rparr>,
      m_tileSize = 32,
      m_scaleFactor = 1,
      m_virtualCenterOffset = \<lparr>pt_x = 0, pt_y = 0\<rparr>,
      m_rectDimension = Rect_default,
      m_awareRange = \<lparr>ar_left = 0, ar_top = 0, ar_right = 0, ar_bottom = 0\<rparr>,
      m_rectCache_rect = Rect_default,
      m_refreshVisibleTiles = True,
      m_refreshVisibleCreatures = True,
      m_floorMin = 0,
      m_floorMax = 0,
      m_cachedFirstVisibleFloor = 7,
      m_cachedLastVisibleFloor = 7,
      m_lockedFirstVisibleFloor = - 1,
      m_floorViewMode = NORMAL,
      m_lastCameraPosition = Position_default,
      m_customCameraPosition = Position_default,
      m_follow = True,
      m_followingCreature = None,
      m_moveOffset = \<lparr>pt_x = 0, pt_y = 0\<rparr>,
      m_lastFadeLevel = 1,
      m_floorFading = 500,
      m_fadingFloorTimers = (\<lambda>z. 0),
      m_cachedVisibleTiles = (\<lambda>z. MapList_clear),
      m_visibleCreatures = [],
      m_shader = None,
      m_nextShader = None,
      m_shaderSwitchDone = True,
      m_fadeTimer = 0,
      m_fadeInTime = 0,
      m_fadeOutTime = 0,
      shader_position = (\<lambda>sh. Position_default),
      m_drawLights = False,
      events = []\<rparr>"

definition example_view :: MapView where
  \<comment> \<open>the view as its constructor leaves it: 15 by 11 tiles visible\<close>
  "example_view = MapView_constructor example_env blank_view"

definition example_position :: Position where
  "example_position = \<lparr>pos_x = 100, pos_y = 100, pos_z = 7\<rparr>"

definition example_rect :: Rect where
  "example_rect = \<lparr>rect_x = 0, rect_y = 0, rect_width = 480, rect_height = 352\<rparr>"


definition deep_position :: Position where
  "deep_position = \<lparr>pos_x = 100, pos_y = 100, pos_z = 254\<rparr>"

definition deep_view :: MapView where
  "deep_view = setCameraPosition deep_position example_view"

definition camera_view :: MapView where
  "camera_view = setCameraPosition example_position example_view"

definition refreshed_once :: MapView where
  \<comment> \<open>the first frame after the camera was set\<close>
  "refreshed_once = draw example_env example_rect camera_view"

definition refreshed_twice :: MapView where
  \<comment> \<open>a tile update marks the cache dirty; the next frame refreshes with the camera unmoved\<close>
  "refreshed_twice = draw example_env example_rect (onTileUpdate False refreshed_once)"

definition underground_position :: Position where
  "underground_position = \<lparr>pos_x = 100, pos_y = 100, pos_z = 10\<rparr>"

definition underground_view :: MapView where
  "underground_view = setCameraPosition underground_position example_view"

definition refreshed_thrice :: MapView where
  \<comment> \<open>one more tile update and frame, the camera still unmoved\<close>
  "refreshed_thrice = draw example_env example_rect (onTileUpdate False refreshed_twice)"

definition fading_env :: Env where
  \<comment> \<open>the example environment with floor fading on and every fade level at \<open>1\<close>\<close>
  "fading_env = example_env\<lparr>hdr_canFloorFade := (\<lambda>s. True)\<rparr>"

definition faded_view :: MapView where
  \<comment> \<open>the last observed fade level reset, as the "showing floor" branch leaves it\<close>
  "faded_view = camera_view\<lparr>m_lastFadeLevel := 0\<rparr>"

section \<open>Auxiliary facts\<close>

lemma example_view_eq:
  "example_view =
     blank_view
       \<lparr>m_shader := Some 0,
        m_visibleDimension := \<lparr>width = 15, height = 11\<rparr>,
        m_drawDimension := \<lparr>width = 18, height = 14\<rparr>,
        m_tileSize := 32,
        m_virtualCenterOffset := \<lparr>pt_x = 8, pt_y = 6\<rparr>,
        m_rectDimension := \<lparr>rect_x = 0, rect_y = 0, rect_width = 576, rect_height = 448\<rparr>,
        m_awareRange := \<lparr>ar_left = 8, ar_top = 6, ar_right = 9, ar_bottom = 7\<rparr>,
        m_rectCache_rect := Rect_default,
        m_refreshVisibleTiles := True,
        m_refreshVisibleCreatures := True\<rparr>"
  by (simp add: example_view_def MapView_constructor_def setVisibleDimension_def blank_view_def
      example_env_def updateGeometry_def Let_def signed_divide_int_def signed_modulo_int_def
      Size_less_def Size_square_def Size_add_def Size_mul_def s32_def SPRITE_SIZE_def u8_def u16_def
      refreshVisibleTiles_def refreshVisibleCreatures_def)

lemma getCameraPosition_custom:
  "\<not> isFollowingCreature s \<Longrightarrow> getCameraPosition env s = m_customCameraPosition s"
  by (auto simp: getCameraPosition_def split: option.splits)

lemma isFollowingCreature_move:
  "isFollowingCreature (move x y s) = isFollowingCreature s"
  by (simp add: move_def isFollowingCreature_def onCameraMove_def refreshVisibleTiles_def Let_def)

lemma cacheFrame_refl: "cacheFrame s s"
  by (simp add: cacheFrame_def)

lemma cacheFrame_trans:
  assumes "cacheFrame s s'" and "cacheFrame s' s''"
  shows "cacheFrame s s''"
proof -
  have a: "s' = s\<lparr>m_visibleCreatures := m_visibleCreatures s',
              m_cachedVisibleTiles := m_cachedVisibleTiles s',
              m_floorMin := m_floorMin s', m_floorMax := m_floorMax s'\<rparr>"
    using assms(1) by (simp add: cacheFrame_def)
  have "s'' = s'\<lparr>m_visibleCreatures := m_visibleCreatures s'',
              m_cachedVisibleTiles := m_cachedVisibleTiles s'',
              m_floorMin := m_floorMin s'', m_floorMax := m_floorMax s''\<rparr>"
    using assms(2) by (simp add: cacheFrame_def)
  also have "\<dots> = s\<lparr>m_visibleCreatures := m_visibleCreatures s'',
              m_cachedVisibleTiles := m_cachedVisibleTiles s'',
              m_floorMin := m_floorMin s'', m_floorMax := m_floorMax s''\<rparr>"
    by (subst a) simp
  finally show ?thesis by (simp add: cacheFrame_def)
qed

lemma cacheFrame_collectCreatures: "cacheFrame s (collectCreatures env tile p s)"
  by (simp add: collectCreatures_def cacheFrame_def)

lemma cacheFrame_widenFloorRange: "cacheFrame s (widenFloorRange iz s)"
  by (simp add: widenFloorRange_def cacheFrame_def)

lemma cacheFrame_cache: "cacheFrame s (s\<lparr>m_cachedVisibleTiles := c\<rparr>)"
  by (simp add: cacheFrame_def)

lemma visitCell_cacheFrame: "cacheFrame s (visitCell env cam iz cell s)"
  unfolding visitCell_def Let_def
  by (auto split: option.splits
      intro!: cacheFrame_refl cacheFrame_trans [OF cacheFrame_collectCreatures
                cacheFrame_trans [OF cacheFrame_cache cacheFrame_widenFloorRange]])

lemma fold_cacheFrame:
  assumes "\<And>x t. cacheFrame t (f x t)"
  shows "cacheFrame s (fold f xs s)"
proof (induction xs arbitrary: s)
  case Nil
  show ?case by (simp add: cacheFrame_refl)
next
  case (Cons x xs)
  show ?case using cacheFrame_trans [OF assms Cons.IH] by simp
qed

lemma cacheVisibleTiles_cacheFrame: "cacheFrame s (cacheVisibleTiles env cam f s)"
  unfolding cacheVisibleTiles_def
  by (intro fold_cacheFrame visitCell_cacheFrame)

lemma cacheFrame_fields:
  assumes "cacheFrame s s'"
  shows "events s' = events s" "m_follow s' = m_follow s"
    "m_followingCreature s' = m_followingCreature s"
    "m_customCameraPosition s' = m_customCameraPosition s"
    "m_lastFadeLevel s' = m_lastFadeLevel s"
    "m_cachedFirstVisibleFloor s' = m_cachedFirstVisibleFloor s"
    "m_cachedLastVisibleFloor s' = m_cachedLastVisibleFloor s"
    "m_lastCameraPosition s' = m_lastCameraPosition s"
    "m_visibleDimension s' = m_visibleDimension s"
    "m_drawDimension s' = m_drawDimension s"
    "m_lockedFirstVisibleFloor s' = m_lockedFirstVisibleFloor s"
    "m_floorViewMode s' = m_floorViewMode s"
    "m_drawLights s' = m_drawLights s"
proof -
  have a: "s' = s\<lparr>m_visibleCreatures := m_visibleCreatures s',
              m_cachedVisibleTiles := m_cachedVisibleTiles s',
              m_floorMin := m_floorMin s', m_floorMax := m_floorMax s'\<rparr>"
    using assms by (simp add: cacheFrame_def)
  show "events s' = events s" by (subst a) simp
  show "m_follow s' = m_follow s" by (subst a) simp
  show "m_followingCreature s' = m_followingCreature s" by (subst a) simp
  show "m_customCameraPosition s' = m_customCameraPosition s" by (subst a) simp
  show "m_lastFadeLevel s' = m_lastFadeLevel s" by (subst a) simp
  show "m_cachedFirstVisibleFloor s' = m_cachedFirstVisibleFloor s" by (subst a) simp
  show "m_cachedLastVisibleFloor s' = m_cachedLastVisibleFloor s" by (subst a) simp
  show "m_lastCameraPosition s' = m_lastCameraPosition s" by (subst a) simp
  show "m_visibleDimension s' = m_visibleDimension s" by (subst a) simp
  show "m_drawDimension s' = m_drawDimension s" by (subst a) simp
  show "m_lockedFirstVisibleFloor s' = m_lockedFirstVisibleFloor s" by (subst a) simp
  show "m_floorViewMode s' = m_floorViewMode s" by (subst a) simp
  show "m_drawLights s' = m_drawLights s" by (subst a) simp
qed

lemma visitCell_no_tiles:
  "g_map_getTile env = (\<lambda>p. None) \<Longrightarrow> visitCell env cam iz cell s = s"
  by (simp add: visitCell_def Let_def)

lemma fold_id: "(\<And>x t. f x t = t) \<Longrightarrow> fold f xs s = s"
  by (induction xs arbitrary: s) auto

lemma cacheVisibleTiles_no_tiles:
  "g_map_getTile env = (\<lambda>p. None) \<Longrightarrow> cacheVisibleTiles env cam f s = s"
  unfolding cacheVisibleTiles_def
  by (simp add: fold_id visitCell_no_tiles)

lemma smod_2_eq_1: "(k smod 2 = 1) = (odd k \<and> 0 < k)" for k :: int
proof (cases "0 < k")
  case True
  then show ?thesis by (auto simp: signed_modulo_int_def signed_divide_int_def sgn_if elim: oddE)
next
  case False
  then have "k smod 2 \<le> 0"
    by (auto simp: signed_modulo_int_def signed_divide_int_def sgn_if)
  with False show ?thesis by simp
qed

lemma updateVisibleThings_invalid:
  "\<not> isValid (getCameraPosition env s) \<Longrightarrow> updateVisibleThings env s = s"
  by (simp add: updateVisibleThings_def)

lemma getCameraPosition_cong:
  "m_follow s' = m_follow s \<Longrightarrow> m_followingCreature s' = m_followingCreature s \<Longrightarrow>
   m_customCameraPosition s' = m_customCameraPosition s \<Longrightarrow>
   getCameraPosition env s' = getCameraPosition env s"
  by (auto simp: getCameraPosition_def isFollowingCreature_def split: option.splits)

lemma getCameraPosition_updateRectCache:
  "getCameraPosition env (updateRectCache rect s) = getCameraPosition env s"
  by (rule getCameraPosition_cong) (simp_all add: updateRectCache_def)

lemma getCameraPosition_checkFadeInFinished:
  "getCameraPosition env (checkFadeInFinished env' s) = getCameraPosition env s"
  by (rule getCameraPosition_cong)
     (simp_all add: checkFadeInFinished_def onFadeInFinished_def refreshVisibleTiles_def Let_def)

lemma getCameraPosition_drawFloor:
  "getCameraPosition env (drawFloor env' s) = getCameraPosition env s"
  by (rule getCameraPosition_cong) (simp_all add: drawFloor_def)

lemma events_updateRectCache: "events (updateRectCache rect s) = events s"
  by (simp add: updateRectCache_def)

lemma events_checkFadeInFinished:
  "events (checkFadeInFinished env s) = events s
   \<or> events (checkFadeInFinished env s) = events s @ [FadeInFinished]"
  by (simp add: checkFadeInFinished_def onFadeInFinished_def refreshVisibleTiles_def Let_def)

lemma example_invalid: "\<not> isValid (getCameraPosition example_env example_view)"
  by (simp add: getCameraPosition_def example_view_eq blank_view_def isValid_def Position_default_def)


lemma u8_le_255: "u8 v \<le> 255"
  by (simp add: u8_def nat_le_iff)

lemma u8_id: "0 \<le> v \<Longrightarrow> v \<le> 255 \<Longrightarrow> u8 v = nat v"
  by (simp add: u8_def)

lemma u8_le: "0 \<le> v \<Longrightarrow> u8 v \<le> nat v"
proof -
  assume "0 \<le> v"
  then have "v mod 256 \<le> v" by (simp add: zmod_le_nonneg_dividend)
  then show ?thesis by (simp add: u8_def nat_mono)
qed

lemma clamp_mono:
  assumes "a \<le> b" and "b \<le> 255"
  shows "u8 (std_clamp (int a) 0 (int m)) \<le> u8 (std_clamp (int b) 0 (int m))"
proof -
  have "0 \<le> std_clamp (int a) 0 (int m)" "std_clamp (int a) 0 (int m) \<le> 255"
    "0 \<le> std_clamp (int b) 0 (int m)" "std_clamp (int b) 0 (int m) \<le> 255"
    "std_clamp (int a) 0 (int m) \<le> std_clamp (int b) 0 (int m)"
    using assms by (auto simp: std_clamp_def)
  then show ?thesis by (simp add: u8_id)
qed

lemma lookUp_le:
  "firstFloor \<le> zmax \<Longrightarrow> pos_z upperPos \<le> zmax \<Longrightarrow> pos_z coveredPos \<le> zmax \<Longrightarrow>
   lookUp env l firstFloor upperPos coveredPos \<le> zmax"
proof (induction env l firstFloor upperPos coveredPos rule: lookUp.induct)
  case (1 env l firstFloor upperPos coveredPos)
  show ?case
  proof (cases "coveredUp (MAX_Z env) 1 coveredPos")
    case None
    then show ?thesis using "1.prems" by (subst lookUp.simps) simp
  next
    case (Some c')
    note c = this
    have cz: "int (pos_z c') + 1 = int (pos_z coveredPos)"
      using c by (auto simp: coveredUp_def Let_def split: if_splits)
    show ?thesis
    proof (cases "up (MAX_Z env) upperPos")
      case None
      then show ?thesis using "1.prems" c by (subst lookUp.simps) simp
    next
      case (Some u')
      note u = this
      have uz: "int (pos_z u') + 1 = int (pos_z upperPos)"
        using u by (auto simp: up_def split: if_splits)
      have a: "u8 (int (pos_z u') + 1) \<le> zmax"
        using u8_le [of "int (pos_z u') + 1"] uz "1.prems" by simp
      have b: "u8 (int (pos_z c') + 1) \<le> zmax"
        using u8_le [of "int (pos_z c') + 1"] cz "1.prems" by simp
      have r: "\<lbrakk>firstFloor \<le> pos_z u'; \<not> tileLimitsFloorsView env u' (\<not> l);
                \<not> tileLimitsFloorsView env c' l\<rbrakk>
               \<Longrightarrow> lookUp env l firstFloor u' c' \<le> zmax"
        using "1.IH" [OF c u] "1.prems" uz cz by simp
      show ?thesis
        using a b r "1.prems" c u by (subst lookUp.simps) simp
    qed
  qed
qed

lemma lookAround_le:
  "firstFloor \<le> pos_z cam \<Longrightarrow> lookAround env cam firstFloor ix iy \<le> pos_z cam"
  by (simp add: lookAround_def Let_def lookUp_le translated_def)

lemma lookAroundAll_le:
  "firstFloor \<le> pos_z cam \<Longrightarrow> lookAroundAll env cam firstFloor offs \<le> pos_z cam"
proof (induction offs arbitrary: firstFloor)
  case Nil
  then show ?case by simp
next
  case (Cons a offs)
  obtain ix iy where a: "a = (ix, iy)" by (cases a)
  show ?case using Cons by (simp add: a lookAround_le)
qed

lemma calcFirst_le_calcLast:
  assumes lock: "m_lockedFirstVisibleFloor s = - 1 \<or> 0 \<le> m_lockedFirstVisibleFloor s"
    and cam: "m_lockedFirstVisibleFloor s = - 1 \<Longrightarrow> isValid (getCameraPosition env s)
              \<Longrightarrow> pos_z (getCameraPosition env s) \<le> 253"
  shows "calcFirstVisibleFloor env b s \<le> calcLastVisibleFloor env s"
proof (cases "m_lockedFirstVisibleFloor s = - 1")
  case True
  note unlocked = this
  show ?thesis
  proof (cases "isValid (getCameraPosition env s)")
    case False
    then show ?thesis using unlocked
      by (simp add: calcFirstVisibleFloor_def calcLastVisibleFloor_def Let_def)
  next
    case True
    define c where "c = getCameraPosition env s"
    have z: "pos_z c \<le> 253" using cam [OF unlocked True] by (simp add: c_def)
    define f0 where "f0 = (if SEA_FLOOR < pos_z c
                    then max (u8 (int (pos_z c) - int AWARE_UNDEGROUND_FLOOR_RANGE))
                             (u8 (int UNDERGROUND_FLOOR))
                    else 0)"
    have f0: "f0 \<le> pos_z c"
      using z by (auto simp: f0_def SEA_FLOOR_def AWARE_UNDEGROUND_FLOOR_RANGE_def
          UNDERGROUND_FLOOR_def u8_def)
    define f where "f = (if b then lookAroundAll env c f0 around3x3 else f0)"
    have f: "f \<le> pos_z c" using f0 by (simp add: f_def lookAroundAll_le)
    define l where "l = (if SEA_FLOOR < pos_z c
                   then u8 (int (pos_z c) + int AWARE_UNDEGROUND_FLOOR_RANGE)
                   else SEA_FLOOR)"
    have l: "pos_z c \<le> l" "l \<le> 255"
      using z by (auto simp: l_def SEA_FLOOR_def AWARE_UNDEGROUND_FLOOR_RANGE_def u8_def)
    have 1: "calcFirstVisibleFloor env b s = u8 (std_clamp (int f) 0 (int (MAX_Z env)))"
      using unlocked True
      by (simp add: calcFirstVisibleFloor_def Let_def c_def [symmetric] f0_def [symmetric]
          f_def [symmetric])
    have 2: "calcLastVisibleFloor env s = u8 (std_clamp (int l) 0 (int (MAX_Z env)))"
      using unlocked True
      by (simp add: calcLastVisibleFloor_def Let_def c_def [symmetric] l_def [symmetric])
    show ?thesis
      unfolding 1 2 using f l by (intro clamp_mono) simp_all
  qed
next
  case False
  define k where "k = m_lockedFirstVisibleFloor s"
  have k: "0 \<le> k" "k \<noteq> - 1" using False lock by (simp_all add: k_def)
  define z0 where "z0 = (if isValid (getCameraPosition env s) then
                  (if SEA_FLOOR < pos_z (getCameraPosition env s)
                   then u8 (int (pos_z (getCameraPosition env s)) + int AWARE_UNDEGROUND_FLOOR_RANGE)
                   else SEA_FLOOR)
                else SEA_FLOOR)"
  have z0: "z0 \<le> 255" by (simp add: z0_def u8_le_255 SEA_FLOOR_def)
  have le: "u8 k \<le> u8 (max k (int z0))"
  proof (cases "int z0 \<le> k")
    case True
    then show ?thesis by (simp add: max_def)
  next
    case False
    then have "u8 k = nat k" "u8 (int z0) = z0" using k z0 by (simp_all add: u8_id)
    then show ?thesis using False by (simp add: max_def)
  qed
  have 1: "calcFirstVisibleFloor env b s = u8 (std_clamp (int (u8 k)) 0 (int (MAX_Z env)))"
    using k by (simp add: calcFirstVisibleFloor_def Let_def k_def)
  have 2: "calcLastVisibleFloor env s
             = u8 (std_clamp (int (u8 (max k (int z0)))) 0 (int (MAX_Z env)))"
    using k by (simp add: calcLastVisibleFloor_def Let_def k_def z0_def)
  show ?thesis
    unfolding 1 2 using le by (intro clamp_mono) (simp_all add: u8_le_255)
qed

lemma lookUp_blocked:
  "coveredUp (MAX_Z env) 1 c = None \<Longrightarrow> lookUp env l f u c = f"
  by (subst lookUp.simps) simp

lemma clearVisibleTilesCache_fields:
  "events (clearVisibleTilesCache s) = events s"
  "m_lastFadeLevel (clearVisibleTilesCache s) = m_lastFadeLevel s"
  "m_cachedFirstVisibleFloor (clearVisibleTilesCache s) = m_cachedFirstVisibleFloor s"
  "m_cachedLastVisibleFloor (clearVisibleTilesCache s) = m_cachedLastVisibleFloor s"
  "m_lastCameraPosition (clearVisibleTilesCache s) = m_lastCameraPosition s"
  "m_follow (clearVisibleTilesCache s) = m_follow s"
  "m_followingCreature (clearVisibleTilesCache s) = m_followingCreature s"
  "m_customCameraPosition (clearVisibleTilesCache s) = m_customCameraPosition s"
  "m_floorMax (clearVisibleTilesCache s) = m_floorMax s"
  "m_floorViewMode (clearVisibleTilesCache s) = m_floorViewMode s"
  "m_refreshVisibleCreatures (clearVisibleTilesCache s) = m_refreshVisibleCreatures s"
  "m_visibleDimension (clearVisibleTilesCache s) = m_visibleDimension s"
  "m_drawDimension (clearVisibleTilesCache s) = m_drawDimension s"
  by (simp_all add: clearVisibleTilesCache_def split: prod.splits)

lemma beginRefresh_fields:
  "events (beginRefresh cam s) = events s"
  "m_lastFadeLevel (beginRefresh cam s) = m_lastFadeLevel s"
  "m_cachedFirstVisibleFloor (beginRefresh cam s) = m_cachedFirstVisibleFloor s"
  "m_cachedLastVisibleFloor (beginRefresh cam s) = m_cachedLastVisibleFloor s"
  "m_lastCameraPosition (beginRefresh cam s) = m_lastCameraPosition s"
  "m_follow (beginRefresh cam s) = m_follow s"
  "m_followingCreature (beginRefresh cam s) = m_followingCreature s"
  "m_customCameraPosition (beginRefresh cam s) = m_customCameraPosition s"
  "m_floorMax (beginRefresh cam s) = m_floorMax s"
  "m_floorMin (beginRefresh cam s) = m_floorMin (clearVisibleTilesCache s)"
  "m_floorViewMode (beginRefresh cam s) = m_floorViewMode s"
  "m_visibleDimension (beginRefresh cam s) = m_visibleDimension s"
  "m_drawDimension (beginRefresh cam s) = m_drawDimension s"
  by (simp_all add: beginRefresh_def Let_def clearVisibleTilesCache_fields)

lemma updateFloorRange_fields:
  "events (updateFloorRange env cam s) = events s"
  "m_lastFadeLevel (updateFloorRange env cam s) = m_lastFadeLevel s"
  "m_lastCameraPosition (updateFloorRange env cam s) = m_lastCameraPosition s"
  "m_follow (updateFloorRange env cam s) = m_follow s"
  "m_followingCreature (updateFloorRange env cam s) = m_followingCreature s"
  "m_customCameraPosition (updateFloorRange env cam s) = m_customCameraPosition s"
  "m_floorMin (updateFloorRange env cam s) = pos_z cam"
  "m_floorMax (updateFloorRange env cam s) = pos_z cam"
  "m_visibleDimension (updateFloorRange env cam s) = m_visibleDimension s"
  "m_drawDimension (updateFloorRange env cam s) = m_drawDimension s"
  by (simp_all add: updateFloorRange_def Let_def onFloorChange_def refreshVisibleCreatures_def)

lemma refreshFloorRange_fields:
  "events (refreshFloorRange env cam s) = events s"
  "m_lastFadeLevel (refreshFloorRange env cam s) = m_lastFadeLevel s"
  "m_lastCameraPosition (refreshFloorRange env cam s) = m_lastCameraPosition s"
  "m_follow (refreshFloorRange env cam s) = m_follow s"
  "m_followingCreature (refreshFloorRange env cam s) = m_followingCreature s"
  "m_customCameraPosition (refreshFloorRange env cam s) = m_customCameraPosition s"
  "m_visibleDimension (refreshFloorRange env cam s) = m_visibleDimension s"
  "m_drawDimension (refreshFloorRange env cam s) = m_drawDimension s"
  by (simp_all add: refreshFloorRange_def updateFloorRange_fields)

lemma updateFading_fields:
  "events (updateFading env cam p f s) = events s"
  "m_cachedFirstVisibleFloor (updateFading env cam p f s) = m_cachedFirstVisibleFloor s"
  "m_cachedLastVisibleFloor (updateFading env cam p f s) = m_cachedLastVisibleFloor s"
  "m_follow (updateFading env cam p f s) = m_follow s"
  "m_followingCreature (updateFading env cam p f s) = m_followingCreature s"
  "m_customCameraPosition (updateFading env cam p f s) = m_customCameraPosition s"
  "m_floorMin (updateFading env cam p f s) = m_floorMin s"
  "m_floorMax (updateFading env cam p f s) = m_floorMax s"
  "m_visibleDimension (updateFading env cam p f s) = m_visibleDimension s"
  "m_drawDimension (updateFading env cam p f s) = m_drawDimension s"
  by (simp_all add: updateFading_def)

lemma updateFading_lastFadeLevel:
  "m_lastFadeLevel (updateFading env cam p f s) =
     (if isValid (m_lastCameraPosition s) \<and> pos_z (m_lastCameraPosition s) = pos_z cam
         \<and> \<not> distance_at_least_3 (m_lastCameraPosition s) cam
         \<and> m_cachedFirstVisibleFloor s < p
      then 0 else m_lastFadeLevel s)"
  by (auto simp: updateFading_def)

text \<open>The refresh with a valid camera, written out in its steps.\<close>

lemma updateVisibleThings_valid:
  assumes "isValid (getCameraPosition env s)"
  shows "updateVisibleThings env s =
     (cacheVisibleTiles env (getCameraPosition env s)
        (firstFloorToCache env
           (refreshFloorRange env (getCameraPosition env s)
              (beginRefresh (getCameraPosition env s) s)))
        ((updateFading env (getCameraPosition env s) (m_cachedFirstVisibleFloor s)
            (firstFloorToCache env
               (refreshFloorRange env (getCameraPosition env s)
                  (beginRefresh (getCameraPosition env s) s)))
            (refreshFloorRange env (getCameraPosition env s)
               (beginRefresh (getCameraPosition env s) s)))
           \<lparr>m_lastCameraPosition := getCameraPosition env s\<rparr>))
       \<lparr>m_refreshVisibleCreatures := False, m_refreshVisibleTiles := False\<rparr>"
  using assms by (simp add: updateVisibleThings_def Let_def beginRefresh_fields)

lemma refreshFrame_refl: "refreshFrame s s"
  by (simp add: refreshFrame_def)

lemma refreshFrame_trans [trans]:
  assumes "refreshFrame s s'" and "refreshFrame s' s''"
  shows "refreshFrame s s''"
proof -
  have a: "s' = s\<lparr>m_cachedVisibleTiles := m_cachedVisibleTiles s',
              m_floorMin := m_floorMin s',
              m_floorMax := m_floorMax s',
              m_visibleCreatures := m_visibleCreatures s',
              m_lockedFirstVisibleFloor := m_lockedFirstVisibleFloor s',
              m_refreshVisibleCreatures := m_refreshVisibleCreatures s',
              m_refreshVisibleTiles := m_refreshVisibleTiles s',
              m_cachedFirstVisibleFloor := m_cachedFirstVisibleFloor s',
              m_cachedLastVisibleFloor := m_cachedLastVisibleFloor s',
              m_fadingFloorTimers := m_fadingFloorTimers s',
              m_lastFadeLevel := m_lastFadeLevel s',
              m_lastCameraPosition := m_lastCameraPosition s'\<rparr>"
    using assms(1) by (simp add: refreshFrame_def)
  have "s'' = s'\<lparr>m_cachedVisibleTiles := m_cachedVisibleTiles s'',
              m_floorMin := m_floorMin s'',
              m_floorMax := m_floorMax s'',
              m_visibleCreatures := m_visibleCreatures s'',
              m_lockedFirstVisibleFloor := m_lockedFirstVisibleFloor s'',
              m_refreshVisibleCreatures := m_refreshVisibleCreatures s'',
              m_refreshVisibleTiles := m_refreshVisibleTiles s'',
              m_cachedFirstVisibleFloor := m_cachedFirstVisibleFloor s'',
              m_cachedLastVisibleFloor := m_cachedLastVisibleFloor s'',
              m_fadingFloorTimers := m_fadingFloorTimers s'',
              m_lastFadeLevel := m_lastFadeLevel s'',
              m_lastCameraPosition := m_lastCameraPosition s''\<rparr>"
    using assms(2) by (simp add: refreshFrame_def)
  also have "\<dots> = s\<lparr>m_cachedVisibleTiles := m_cachedVisibleTiles s'',
              m_floorMin := m_floorMin s'',
              m_floorMax := m_floorMax s'',
              m_visibleCreatures := m_visibleCreatures s'',
              m_lockedFirstVisibleFloor := m_lockedFirstVisibleFloor s'',
              m_refreshVisibleCreatures := m_refreshVisibleCreatures s'',
              m_refreshVisibleTiles := m_refreshVisibleTiles s'',
              m_cachedFirstVisibleFloor := m_cachedFirstVisibleFloor s'',
              m_cachedLastVisibleFloor := m_cachedLastVisibleFloor s'',
              m_fadingFloorTimers := m_fadingFloorTimers s'',
              m_lastFadeLevel := m_lastFadeLevel s'',
              m_lastCameraPosition := m_lastCameraPosition s''\<rparr>"
    by (subst a) simp
  finally show ?thesis by (simp add: refreshFrame_def)
qed

lemma refreshFrame_cache_updates:
  "t = s\<lparr>m_visibleCreatures := a, m_cachedVisibleTiles := b, m_floorMin := c, m_floorMax := d\<rparr>
   \<Longrightarrow> refreshFrame s t"
  by (simp add: refreshFrame_def)

lemma refreshFrame_cacheFrame: "cacheFrame s s' \<Longrightarrow> refreshFrame s s'"
  unfolding cacheFrame_def by (rule refreshFrame_cache_updates)

lemma refreshFrame_beginRefresh: "refreshFrame s (beginRefresh cam s)"
  by (simp add: refreshFrame_def beginRefresh_def Let_def clearVisibleTilesCache_def
      split: prod.splits)

lemma refreshFrame_refreshFloorRange: "refreshFrame s (refreshFloorRange env cam s)"
  by (simp add: refreshFrame_def refreshFloorRange_def updateFloorRange_def Let_def
      onFloorChange_def refreshVisibleCreatures_def)

lemma refreshFrame_updateFading: "refreshFrame s (updateFading env cam p f s)"
  by (simp add: refreshFrame_def updateFading_def)

lemma refreshFrame_finish:
  "refreshFrame s (s\<lparr>m_lastCameraPosition := c\<rparr>)"
  "refreshFrame s (s\<lparr>m_refreshVisibleCreatures := a, m_refreshVisibleTiles := b\<rparr>)"
  by (simp_all add: refreshFrame_def)

lemma refreshFrame_updateVisibleThings: "refreshFrame s (updateVisibleThings env s)"
proof (cases "isValid (getCameraPosition env s)")
  case True
  define cam where "cam = getCameraPosition env s"
  define s3 where "s3 = beginRefresh cam s"
  define s4 where "s4 = refreshFloorRange env cam s3"
  define s5 where "s5 = updateFading env cam (m_cachedFirstVisibleFloor s)
                          (firstFloorToCache env s4) s4"
  define s6 where "s6 = s5\<lparr>m_lastCameraPosition := cam\<rparr>"
  define s7 where "s7 = cacheVisibleTiles env cam (firstFloorToCache env s4) s6"
  have u: "updateVisibleThings env s
             = s7\<lparr>m_refreshVisibleCreatures := False, m_refreshVisibleTiles := False\<rparr>"
    by (simp add: updateVisibleThings_valid [OF True] s7_def s6_def s5_def s4_def s3_def cam_def)
  have "refreshFrame s s3"
    unfolding s3_def by (rule refreshFrame_beginRefresh)
  also have "refreshFrame s3 s4"
    unfolding s4_def by (rule refreshFrame_refreshFloorRange)
  also have "refreshFrame s4 s5"
    unfolding s5_def by (rule refreshFrame_updateFading)
  also have "refreshFrame s5 s6"
    unfolding s6_def by (rule refreshFrame_finish)
  also have "refreshFrame s6 s7"
    unfolding s7_def by (rule refreshFrame_cacheFrame [OF cacheVisibleTiles_cacheFrame])
  also have "refreshFrame s7 (updateVisibleThings env s)"
    unfolding u by (rule refreshFrame_finish)
  finally show ?thesis .
qed (simp add: updateVisibleThings_invalid refreshFrame_refl)

lemma refreshFrame_fields:
  assumes "refreshFrame s s'"
  shows "events s' = events s" "m_follow s' = m_follow s"
    "m_followingCreature s' = m_followingCreature s"
    "m_customCameraPosition s' = m_customCameraPosition s"
    "m_visibleDimension s' = m_visibleDimension s"
    "m_drawDimension s' = m_drawDimension s"
    "m_floorViewMode s' = m_floorViewMode s"
proof -
  have a: "s' = s\<lparr>m_cachedVisibleTiles := m_cachedVisibleTiles s',
              m_floorMin := m_floorMin s',
              m_floorMax := m_floorMax s',
              m_visibleCreatures := m_visibleCreatures s',
              m_lockedFirstVisibleFloor := m_lockedFirstVisibleFloor s',
              m_refreshVisibleCreatures := m_refreshVisibleCreatures s',
              m_refreshVisibleTiles := m_refreshVisibleTiles s',
              m_cachedFirstVisibleFloor := m_cachedFirstVisibleFloor s',
              m_cachedLastVisibleFloor := m_cachedLastVisibleFloor s',
              m_fadingFloorTimers := m_fadingFloorTimers s',
              m_lastFadeLevel := m_lastFadeLevel s',
              m_lastCameraPosition := m_lastCameraPosition s'\<rparr>"
    using assms by (simp add: refreshFrame_def)
  show "events s' = events s" by (subst a) simp
  show "m_follow s' = m_follow s" by (subst a) simp
  show "m_followingCreature s' = m_followingCreature s" by (subst a) simp
  show "m_customCameraPosition s' = m_customCameraPosition s" by (subst a) simp
  show "m_visibleDimension s' = m_visibleDimension s" by (subst a) simp
  show "m_drawDimension s' = m_drawDimension s" by (subst a) simp
  show "m_floorViewMode s' = m_floorViewMode s" by (subst a) simp
qed

lemmas updateVisibleThings_fields = refreshFrame_fields [OF refreshFrame_updateVisibleThings]

lemma getCameraPosition_updateVisibleThings:
  "getCameraPosition env' (updateVisibleThings env s) = getCameraPosition env' s"
  by (rule getCameraPosition_cong) (simp_all add: updateVisibleThings_fields)

text \<open>The members that the refresh does write.\<close>

lemma updateVisibleThings_lastFadeLevel:
  "m_lastFadeLevel (updateVisibleThings env s)
     = (if floorRevealed env s then 0 else m_lastFadeLevel s)"
proof (cases "isValid (getCameraPosition env s)")
  case True
  show ?thesis
    unfolding updateVisibleThings_valid [OF True]
    by (simp add: cacheFrame_fields [OF cacheVisibleTiles_cacheFrame] updateFading_lastFadeLevel
        refreshFloorRange_fields beginRefresh_fields floorRevealed_def Let_def True)
qed (simp add: updateVisibleThings_invalid floorRevealed_def)

lemma updateVisibleThings_lastCameraPosition:
  "isValid (getCameraPosition env s) \<Longrightarrow>
   m_lastCameraPosition (updateVisibleThings env s) = getCameraPosition env s"
  by (simp add: updateVisibleThings_valid cacheFrame_fields [OF cacheVisibleTiles_cacheFrame])

lemma updateVisibleThings_cached:
  assumes "isValid (getCameraPosition env s)"
  shows "m_cachedFirstVisibleFloor (updateVisibleThings env s)
           = m_cachedFirstVisibleFloor
               (refreshFloorRange env (getCameraPosition env s)
                  (beginRefresh (getCameraPosition env s) s))"
    and "m_cachedLastVisibleFloor (updateVisibleThings env s)
           = m_cachedLastVisibleFloor
               (refreshFloorRange env (getCameraPosition env s)
                  (beginRefresh (getCameraPosition env s) s))"
  by (simp_all add: updateVisibleThings_valid [OF assms]
      cacheFrame_fields [OF cacheVisibleTiles_cacheFrame] updateFading_fields)

lemma updateFloorRange_ordered:
  "m_cachedFirstVisibleFloor (updateFloorRange env cam s)
     \<le> m_cachedLastVisibleFloor (updateFloorRange env cam s)"
  by (simp add: updateFloorRange_def Let_def)

lemma calc_cong:
  assumes "m_lockedFirstVisibleFloor s' = m_lockedFirstVisibleFloor s"
    and "getCameraPosition env s' = getCameraPosition env s"
  shows "calcFirstVisibleFloor env b s' = calcFirstVisibleFloor env b s"
    and "calcLastVisibleFloor env s' = calcLastVisibleFloor env s"
  unfolding calcFirstVisibleFloor_def calcLastVisibleFloor_def assms by simp_all

lemma calc_onFloorChange:
  "calcFirstVisibleFloor env b (onFloorChange s) = calcFirstVisibleFloor env b s"
  "calcLastVisibleFloor env (onFloorChange s) = calcLastVisibleFloor env s"
proof -
  have c: "getCameraPosition env (onFloorChange s) = getCameraPosition env s"
    by (rule getCameraPosition_cong) (simp_all add: onFloorChange_def refreshVisibleCreatures_def)
  have l: "m_lockedFirstVisibleFloor (onFloorChange s) = m_lockedFirstVisibleFloor s"
    by (simp add: onFloorChange_def refreshVisibleCreatures_def)
  show "calcFirstVisibleFloor env b (onFloorChange s) = calcFirstVisibleFloor env b s"
    by (rule calc_cong [OF l c])
  show "calcLastVisibleFloor env (onFloorChange s) = calcLastVisibleFloor env s"
    by (rule calc_cong [OF l c])
qed

lemma updateFloorRange_cached:
  "m_cachedFirstVisibleFloor (updateFloorRange env cam s)
     = calcFirstVisibleFloor env (m_floorViewMode s \<noteq> ALWAYS) s"
  "m_cachedLastVisibleFloor (updateFloorRange env cam s)
     = max (calcFirstVisibleFloor env (m_floorViewMode s \<noteq> ALWAYS) s) (calcLastVisibleFloor env s)"
proof -
  have m: "m_floorViewMode (onFloorChange s) = m_floorViewMode s"
    by (simp add: onFloorChange_def refreshVisibleCreatures_def)
  show "m_cachedFirstVisibleFloor (updateFloorRange env cam s)
     = calcFirstVisibleFloor env (m_floorViewMode s \<noteq> ALWAYS) s"
    by (simp add: updateFloorRange_def Let_def calc_onFloorChange m)
  show "m_cachedLastVisibleFloor (updateFloorRange env cam s)
     = max (calcFirstVisibleFloor env (m_floorViewMode s \<noteq> ALWAYS) s) (calcLastVisibleFloor env s)"
    by (simp add: updateFloorRange_def Let_def calc_onFloorChange m max_def)
qed

lemma updateVisibleThings_ordered:
  assumes "m_cachedFirstVisibleFloor s \<le> m_cachedLastVisibleFloor s"
  shows "m_cachedFirstVisibleFloor (updateVisibleThings env s)
           \<le> m_cachedLastVisibleFloor (updateVisibleThings env s)"
proof (cases "isValid (getCameraPosition env s)")
  case True
  show ?thesis
    using assms updateFloorRange_ordered
    by (simp add: updateVisibleThings_cached [OF True] refreshFloorRange_def beginRefresh_fields)
qed (simp add: updateVisibleThings_invalid assms)

lemma camera_view_eq:
  "camera_view = example_view\<lparr>m_follow := False, m_customCameraPosition := example_position,
     m_refreshVisibleTiles := True\<rparr>"
  by (simp add: camera_view_def setCameraPosition_def refreshVisibleTiles_def)

lemma deep_view_eq:
  "deep_view = example_view\<lparr>m_follow := False, m_customCameraPosition := deep_position,
     m_refreshVisibleTiles := True\<rparr>"
  by (simp add: deep_view_def setCameraPosition_def refreshVisibleTiles_def)

lemma camera_view_camera: "getCameraPosition env camera_view = example_position"
  by (simp add: getCameraPosition_custom isFollowingCreature_def camera_view_eq)

lemma deep_view_camera: "getCameraPosition env deep_view = deep_position"
  by (simp add: getCameraPosition_custom isFollowingCreature_def deep_view_eq)

lemma lookAround_deep: "lookAround example_env deep_position f ix iy = f"
  by (simp add: lookAround_def Let_def lookUp_blocked coveredUp_def translated_def
      deep_position_def example_env_def)

lemma fadeInFinishedCount_append:
  "events s' = events s @ es \<Longrightarrow>
   fadeInFinishedCount s' = fadeInFinishedCount s + length (filter (\<lambda>e. e = FadeInFinished) es)"
  by (simp add: fadeInFinishedCount_def)

lemma filter_absent: "x \<notin> set es \<Longrightarrow> filter (\<lambda>e. e = x) es = []"
  by (induction es) auto

lemma refreshIfNeeded_fields:
  "events (refreshIfNeeded env s) = events s"
  "m_lastFadeLevel (refreshIfNeeded env s)
     = (if m_refreshVisibleTiles s \<and> floorRevealed env s then 0 else m_lastFadeLevel s)"
  by (simp_all add: refreshIfNeeded_def updateVisibleThings_fields updateVisibleThings_lastFadeLevel)

lemma stateAtFadeCheck_fields:
  "events (stateAtFadeCheck env rect s) = events s"
  "m_lastFadeLevel (stateAtFadeCheck env rect s)
     = (if m_refreshVisibleTiles s \<and> floorRevealed env s then 0 else m_lastFadeLevel s)"
  by (simp_all add: stateAtFadeCheck_def updateRectCache_def refreshIfNeeded_fields)

text \<open>The comparison of the fade levels: either it fires, or it leaves the view alone.\<close>

lemma checkFadeInFinished_cases:
  "(hdr_canFloorFade env t \<and> hdr_getFadeLevel env t (m_cachedFirstVisibleFloor t) = 1
      \<and> m_lastFadeLevel t \<noteq> 1
      \<and> events (checkFadeInFinished env t) = events t @ [FadeInFinished]
      \<and> m_lastFadeLevel (checkFadeInFinished env t) = 1)
   \<or> (checkFadeInFinished env t = t
      \<and> \<not> (hdr_canFloorFade env t \<and> hdr_getFadeLevel env t (m_cachedFirstVisibleFloor t) = 1
             \<and> m_lastFadeLevel t \<noteq> 1))"
  by (auto simp: checkFadeInFinished_def Let_def onFadeInFinished_def refreshVisibleTiles_def)

lemma draw_tail:
  "m_lastFadeLevel (drawOverlays env (drawFloor env t)) = m_lastFadeLevel t"
  "\<exists>es. events (drawOverlays env (drawFloor env t)) = events t @ es
        \<and> FadeInFinished \<notin> set es"
  by (auto simp: drawOverlays_def drawFloor_def drawCreatureInformation_def drawText_def Let_def)

lemma draw_unfold:
  "draw env rect s
     = drawOverlays env (drawFloor env (checkFadeInFinished env (stateAtFadeCheck env rect s)))"
  by (simp add: draw_def stateAtFadeCheck_def)

lemma draw_fires:
  assumes "FadeInFinished \<in> set (frameEvents env rect s)"
  shows "hdr_canFloorFade env (stateAtFadeCheck env rect s)
     \<and> hdr_getFadeLevel env (stateAtFadeCheck env rect s)
          (m_cachedFirstVisibleFloor (stateAtFadeCheck env rect s)) = 1
     \<and> m_lastFadeLevel (stateAtFadeCheck env rect s) \<noteq> 1
     \<and> m_lastFadeLevel (draw env rect s) = 1
     \<and> fadeInFinishedCount (draw env rect s) = fadeInFinishedCount s + 1"
proof -
  define t where "t = stateAtFadeCheck env rect s"
  obtain es where es: "events (draw env rect s) = events (checkFadeInFinished env t) @ es"
    "FadeInFinished \<notin> set es"
    using draw_tail(2) [of env "checkFadeInFinished env t"] by (auto simp: draw_unfold t_def)
  have l: "m_lastFadeLevel (draw env rect s) = m_lastFadeLevel (checkFadeInFinished env t)"
    by (simp add: draw_unfold t_def draw_tail)
  have et: "events t = events s" by (simp add: t_def stateAtFadeCheck_fields)
  from checkFadeInFinished_cases [of env t] show ?thesis
  proof
    assume f: "hdr_canFloorFade env t \<and> hdr_getFadeLevel env t (m_cachedFirstVisibleFloor t) = 1
      \<and> m_lastFadeLevel t \<noteq> 1
      \<and> events (checkFadeInFinished env t) = events t @ [FadeInFinished]
      \<and> m_lastFadeLevel (checkFadeInFinished env t) = 1"
    then have "events (draw env rect s) = events s @ (FadeInFinished # es)"
      using es et by simp
    then have "fadeInFinishedCount (draw env rect s) = fadeInFinishedCount s + 1"
      using es(2) by (simp add: fadeInFinishedCount_append [where es = "FadeInFinished # es"]
          filter_absent)
    then show ?thesis using f l by (simp add: t_def)
  next
    assume "checkFadeInFinished env t = t
      \<and> \<not> (hdr_canFloorFade env t \<and> hdr_getFadeLevel env t (m_cachedFirstVisibleFloor t) = 1
             \<and> m_lastFadeLevel t \<noteq> 1)"
    then have "frameEvents env rect s = es"
      using es et by (simp add: frameEvents_def)
    then show ?thesis using assms es(2) by simp
  qed
qed

lemma draw_quiet:
  assumes "m_lastFadeLevel s = 1" and "\<not> (m_refreshVisibleTiles s \<and> floorRevealed env s)"
  shows "m_lastFadeLevel (draw env rect s) = 1
       \<and> fadeInFinishedCount (draw env rect s) = fadeInFinishedCount s"
proof -
  define t where "t = stateAtFadeCheck env rect s"
  have lt: "m_lastFadeLevel t = 1" using assms by (simp add: t_def stateAtFadeCheck_fields)
  have et: "events t = events s" by (simp add: t_def stateAtFadeCheck_fields)
  have c: "checkFadeInFinished env t = t"
    using checkFadeInFinished_cases [of env t] lt by auto
  obtain es where es: "events (draw env rect s) = events s @ es" "FadeInFinished \<notin> set es"
    using draw_tail(2) [of env t] by (auto simp: draw_unfold t_def [symmetric] c et)
  have "filter (\<lambda>e. e = FadeInFinished) es = []"
    using es(2) by (rule filter_absent)
  then have "fadeInFinishedCount (draw env rect s) = fadeInFinishedCount s"
    using fadeInFinishedCount_append [OF es(1)] by simp
  moreover have "m_lastFadeLevel (draw env rect s) = 1"
    by (simp add: draw_unfold t_def [symmetric] c draw_tail lt)
  ultimately show ?thesis by simp
qed

lemma updateGeometry_quiet:
  "m_lastFadeLevel (updateGeometry env d s) = m_lastFadeLevel s"
  "fadeInFinishedCount (updateGeometry env d s) = fadeInFinishedCount s"
  by (simp_all add: updateGeometry_def Let_def traceError_def refreshVisibleTiles_def
      refreshVisibleCreatures_def fadeInFinishedCount_def)

lemma call_quiet:
  assumes "m_lastFadeLevel s = 1" and "\<not> revealsFloor env c s"
  shows "m_lastFadeLevel (call env c s) = 1
       \<and> fadeInFinishedCount (call env c s) = fadeInFinishedCount s"
proof (cases c)
  case (Draw rect)
  then show ?thesis using assms draw_quiet [of s env rect] by simp
next
  case (Move x y)
  then show ?thesis using assms
    by (simp add: move_def Let_def onCameraMove_def refreshVisibleTiles_def fadeInFinishedCount_def)
next
  case (SetCameraPosition p)
  then show ?thesis using assms
    by (simp add: setCameraPosition_def refreshVisibleTiles_def fadeInFinishedCount_def)
next
  case (FollowCreature x)
  then show ?thesis using assms
    by (simp add: followCreature_def refreshVisibleTiles_def fadeInFinishedCount_def)
next
  case (SetFloorViewMode m)
  then show ?thesis using assms
    by (simp add: setFloorViewMode_def resetLastCamera_def refreshVisibleTiles_def
        fadeInFinishedCount_def)
next
  case (SetVisibleDimension d)
  then show ?thesis using assms
    by (simp add: setVisibleDimension_def updateGeometry_quiet)
       (simp add: traceError_def fadeInFinishedCount_def)
next
  case (SetAntiAliasingMode m)
  then show ?thesis using assms
    by (simp add: setAntiAliasingMode_def Let_def updateGeometry_quiet)
       (simp add: fadeInFinishedCount_def)
next
  case (SetShader sh fi fo)
  then show ?thesis using assms
    by (simp add: setShader_def Let_def fadeInFinishedCount_def split: option.splits)
next
  case (LockFirstVisibleFloor z)
  then show ?thesis using assms
    by (simp add: lockFirstVisibleFloor_def refreshVisibleTiles_def fadeInFinishedCount_def)
next
  case UnlockFirstVisibleFloor
  then show ?thesis using assms
    by (simp add: unlockFirstVisibleFloor_def refreshVisibleTiles_def fadeInFinishedCount_def)
next
  case (OnTileUpdate b)
  then show ?thesis using assms
    by (simp add: onTileUpdate_def refreshVisibleTiles_def refreshVisibleCreatures_def
        fadeInFinishedCount_def)
next
  case OnMapCenterChange
  then show ?thesis using assms
    by (simp add: onMapCenterChange_def refreshVisibleTiles_def fadeInFinishedCount_def)
next
  case (SetDrawLights enable)
  then show ?thesis using assms
    by (simp add: setDrawLights_def fadeInFinishedCount_def)
qed

lemma run_quiet:
  "m_lastFadeLevel s = 1 \<Longrightarrow> noFloorRevealed cs s \<Longrightarrow>
   m_lastFadeLevel (run cs s) = 1 \<and> fadeInFinishedCount (run cs s) = fadeInFinishedCount s"
proof (induction cs arbitrary: s)
  case Nil
  then show ?case by simp
next
  case (Cons a cs)
  obtain env c where a: "a = (env, c)" by (cases a)
  have q: "m_lastFadeLevel (call env c s) = 1
       \<and> fadeInFinishedCount (call env c s) = fadeInFinishedCount s"
    using Cons.prems call_quiet [of s env c] by (simp add: a)
  show ?case using Cons.IH [of "call env c s"] Cons.prems q by (simp add: a)
qed

lemma clearLoop_snd: "snd (clearLoop c lo hi) = Suc (max lo hi)"
proof (induction c lo hi rule: clearLoop.induct)
  case (1 cache floorMin floorMax)
  show ?case
  proof (cases "floorMin + 1 \<le> floorMax")
    case True
    have "snd (clearLoop (cache(floorMin := MapList_clear)) (floorMin + 1) floorMax)
            = Suc (max (floorMin + 1) floorMax)"
      using True by (rule "1.IH" [OF refl refl])
    then show ?thesis using True by (subst clearLoop.simps) (simp add: Let_def max_def)
  next
    case False
    then show ?thesis by (subst clearLoop.simps) (simp add: Let_def max_def)
  qed
qed

lemma clearVisibleTilesCache_floorMin:
  "m_floorMin (clearVisibleTilesCache s) = Suc (max (m_floorMin s) (m_floorMax s))"
proof -
  obtain c lo where e: "clearLoop (m_cachedVisibleTiles s) (m_floorMin s) (m_floorMax s) = (c, lo)"
    by (cases "clearLoop (m_cachedVisibleTiles s) (m_floorMin s) (m_floorMax s)")
  have "lo = Suc (max (m_floorMin s) (m_floorMax s))"
    using clearLoop_snd [of "m_cachedVisibleTiles s" "m_floorMin s" "m_floorMax s"] e by simp
  then show ?thesis by (simp add: clearVisibleTilesCache_def e)
qed

text \<open>
  The bounds a refresh leaves when the map holds no tile around the camera: reset
  to the camera's floor when the camera moved, and otherwise the value the
  clearing loop left in \<^verbatim>\<open>m_floorMin\<close>, one above the old \<^verbatim>\<open>m_floorMax\<close>.
\<close>

lemma updateVisibleThings_floors_no_tiles:
  assumes "g_map_getTile env = (\<lambda>p. None)" and "isValid (getCameraPosition env s)"
  shows "m_floorMin (updateVisibleThings env s)
           = (if m_lastCameraPosition s \<noteq> getCameraPosition env s
              then pos_z (getCameraPosition env s)
              else Suc (max (m_floorMin s) (m_floorMax s)))"
    and "m_floorMax (updateVisibleThings env s)
           = (if m_lastCameraPosition s \<noteq> getCameraPosition env s
              then pos_z (getCameraPosition env s)
              else m_floorMax s)"
  by (simp_all add: updateVisibleThings_valid [OF assms(2)] cacheVisibleTiles_no_tiles [OF assms(1)]
      updateFading_fields refreshFloorRange_def updateFloorRange_fields beginRefresh_fields
      clearVisibleTilesCache_floorMin)

lemma draw_after_refresh:
  "m_floorMin (drawOverlays env (drawFloor env (checkFadeInFinished env (updateRectCache rect t))))
     = m_floorMin t"
  "m_floorMax (drawOverlays env (drawFloor env (checkFadeInFinished env (updateRectCache rect t))))
     = m_floorMax t"
  "m_lastCameraPosition
     (drawOverlays env (drawFloor env (checkFadeInFinished env (updateRectCache rect t))))
     = m_lastCameraPosition t"
  "m_cachedFirstVisibleFloor
     (drawOverlays env (drawFloor env (checkFadeInFinished env (updateRectCache rect t))))
     = m_cachedFirstVisibleFloor t"
  "m_follow (drawOverlays env (drawFloor env (checkFadeInFinished env (updateRectCache rect t))))
     = m_follow t"
  "m_followingCreature
     (drawOverlays env (drawFloor env (checkFadeInFinished env (updateRectCache rect t))))
     = m_followingCreature t"
  "m_customCameraPosition
     (drawOverlays env (drawFloor env (checkFadeInFinished env (updateRectCache rect t))))
     = m_customCameraPosition t"
  by (simp_all add: drawOverlays_def drawFloor_def checkFadeInFinished_def updateRectCache_def
      drawCreatureInformation_def drawText_def onFadeInFinished_def refreshVisibleTiles_def Let_def)

lemma getCameraPosition_draw: "getCameraPosition env' (draw env rect s) = getCameraPosition env' s"
  by (rule getCameraPosition_cong)
     (simp_all add: draw_def draw_after_refresh refreshIfNeeded_def updateVisibleThings_fields)

lemma getCameraPosition_onTileUpdate:
  "getCameraPosition env (onTileUpdate b s) = getCameraPosition env s"
  by (rule getCameraPosition_cong)
     (simp_all add: onTileUpdate_def refreshVisibleTiles_def refreshVisibleCreatures_def)

lemma example_no_tiles: "g_map_getTile example_env = (\<lambda>p. None)"
  by (simp add: example_env_def)

lemma example_position_valid: "isValid example_position"
  by (simp add: example_position_def isValid_def)

lemma refreshed_once_fields:
  "m_floorMin refreshed_once = 7" "m_floorMax refreshed_once = 7"
  "m_lastCameraPosition refreshed_once = example_position"
proof -
  have r: "m_refreshVisibleTiles camera_view" by (simp add: camera_view_eq)
  have v: "isValid (getCameraPosition example_env camera_view)"
    by (simp add: camera_view_camera example_position_valid)
  have l: "m_lastCameraPosition camera_view \<noteq> getCameraPosition example_env camera_view"
    by (simp add: camera_view_camera)
       (simp add: camera_view_eq example_view_eq blank_view_def Position_default_def
          example_position_def)
  show "m_floorMin refreshed_once = 7"
    using l by (simp add: refreshed_once_def draw_def draw_after_refresh refreshIfNeeded_def r
        updateVisibleThings_floors_no_tiles [OF example_no_tiles v])
       (simp add: camera_view_camera example_position_def)
  show "m_floorMax refreshed_once = 7"
    using l by (simp add: refreshed_once_def draw_def draw_after_refresh refreshIfNeeded_def r
        updateVisibleThings_floors_no_tiles [OF example_no_tiles v])
       (simp add: camera_view_camera example_position_def)
  show "m_lastCameraPosition refreshed_once = example_position"
    by (simp add: refreshed_once_def draw_def draw_after_refresh refreshIfNeeded_def r
        updateVisibleThings_lastCameraPosition [OF v] camera_view_camera)
qed

lemma fading_env_simps:
  "g_map_getTile fading_env = (\<lambda>p. None)" "hdr_canFloorFade fading_env = (\<lambda>s. True)"
  "hdr_getFadeLevel fading_env = (\<lambda>s z. 1)" "MAX_Z fading_env = 15"
  by (simp_all add: fading_env_def example_env_def)

lemma faded_view_camera: "getCameraPosition env faded_view = example_position"
  by (simp add: getCameraPosition_custom isFollowingCreature_def faded_view_def camera_view_eq)

lemma faded_view_not_revealed: "\<not> floorRevealed fading_env faded_view"
  by (simp add: floorRevealed_def faded_view_camera Let_def)
     (simp add: faded_view_def camera_view_eq example_view_eq blank_view_def isValid_def
        Position_default_def)

lemma faded_view_fires:
  "FadeInFinished \<in> set (frameEvents fading_env example_rect faded_view)"
proof -
  define t where "t = stateAtFadeCheck fading_env example_rect faded_view"
  have l: "m_lastFadeLevel t = 0"
    by (simp add: t_def stateAtFadeCheck_fields faded_view_not_revealed) (simp add: faded_view_def)
  have "events (checkFadeInFinished fading_env t) = events t @ [FadeInFinished]"
    using checkFadeInFinished_cases [of fading_env t] l by (auto simp: fading_env_simps)
  moreover have "events t = events faded_view"
    by (simp add: t_def stateAtFadeCheck_fields)
  moreover obtain es where
    "events (draw fading_env example_rect faded_view)
       = events (checkFadeInFinished fading_env t) @ es"
    using draw_tail(2) [of fading_env "checkFadeInFinished fading_env t"]
    by (auto simp: draw_unfold t_def)
  ultimately show ?thesis by (simp add: frameEvents_def)
qed

lemma floorRevealed_unmoved:
  "m_lastCameraPosition s = getCameraPosition env s \<Longrightarrow> \<not> floorRevealed env s"
  by (simp add: floorRevealed_def Let_def refreshFloorRange_def beginRefresh_fields)

lemma draw_lastCameraPosition:
  "m_refreshVisibleTiles s \<Longrightarrow> isValid (getCameraPosition env s) \<Longrightarrow>
   m_lastCameraPosition (draw env rect s) = getCameraPosition env s"
  by (simp add: draw_def draw_after_refresh refreshIfNeeded_def
      updateVisibleThings_lastCameraPosition)

lemma faded_view_next_frame:
  "\<not> floorRevealed fading_env
       (onTileUpdate False (draw fading_env example_rect faded_view))"
proof -
  have r: "m_refreshVisibleTiles faded_view" by (simp add: faded_view_def camera_view_eq)
  have v: "isValid (getCameraPosition fading_env faded_view)"
    by (simp add: faded_view_camera example_position_def isValid_def)
  have l: "m_lastCameraPosition (onTileUpdate False (draw fading_env example_rect faded_view))
             = example_position"
    using draw_lastCameraPosition [OF r v, of example_rect]
    by (simp add: onTileUpdate_def refreshVisibleTiles_def faded_view_camera)
  have c: "getCameraPosition fading_env
             (onTileUpdate False (draw fading_env example_rect faded_view)) = example_position"
    by (simp add: getCameraPosition_onTileUpdate getCameraPosition_draw faded_view_camera)
  show ?thesis by (rule floorRevealed_unmoved) (simp add: l c)
qed


lemma s32_le: "0 \<le> x \<Longrightarrow> s32 x \<le> x" for x :: int
proof -
  assume "0 \<le> x"
  then have "(x + 2 ^ 31) mod 2 ^ 32 \<le> x + 2 ^ 31"
    by (intro zmod_le_nonneg_dividend) simp
  then show ?thesis by (simp add: s32_def)
qed

lemma s32_u: "- (2 ^ 31) \<le> x \<Longrightarrow> x < 2 ^ 31 \<Longrightarrow> s32 (x mod 2 ^ 32) = x" for x :: int
proof -
  assume a: "- (2 ^ 31) \<le> x" "x < 2 ^ 31"
  have "(x mod 2 ^ 32 + 2 ^ 31) mod 2 ^ 32 = (x + 2 ^ 31) mod 2 ^ 32"
    by (simp add: mod_add_left_eq)
  also have "\<dots> = x + 2 ^ 31" using a by (simp add: mod_pos_pos_trivial)
  finally show ?thesis by (simp add: s32_def)
qed

lemma mod_bits_32: "32 \<le> bits \<Longrightarrow> (x mod 2 ^ bits) mod 2 ^ 32 = x mod 2 ^ 32" for x :: int
  by (rule mod_mod_cancel) (rule le_imp_power_dvd)

lemma s32_mod_bits:
  "32 \<le> bits \<Longrightarrow> s32 (x mod 2 ^ bits) = s32 (x mod 2 ^ 32)" for x :: int
proof -
  assume b: "32 \<le> bits"
  have "(x mod 2 ^ bits + 2 ^ 31) mod 2 ^ 32 = ((x mod 2 ^ bits) mod 2 ^ 32 + 2 ^ 31) mod 2 ^ 32"
    by (simp add: mod_add_left_eq)
  also have "\<dots> = (x mod 2 ^ 32 + 2 ^ 31) mod 2 ^ 32"
    by (simp only: mod_bits_32 [OF b])
  finally show ?thesis by (simp add: s32_def)
qed

text \<open>
  What \<^verbatim>\<open>std::max<uint32_t>(diagonal - height, 0)\<close> comes to: the unsigned difference
  is never below \<open>0\<close>, so \<open>advance\<close> is \<open>diagonal - height\<close> modulo \<open>2 ^ 32\<close>, and the
  loop starts at \<open>ix = diagonal - height\<close>, \<open>iy = height\<close> on every diagonal.
\<close>

lemma diagonalStart_eq:
  assumes "32 \<le> bits" and "0 \<le> d" and "d < 2 ^ 31" and "0 \<le> h" and "h < 2 ^ 31"
  shows "diagonalStart bits h d = (d - h, h)"
proof -
  define a where "a = (d - h) mod 2 ^ 32"
  have e: "u32 ((d - h) mod 2 ^ bits) = a"
    unfolding u32_def a_def by (rule mod_bits_32 [OF assms(1)])
  have "0 \<le> a" unfolding a_def by simp
  then have adv: "max (u32 ((d - h) mod 2 ^ bits)) (u32 0) = a"
    unfolding e by (simp add: u32_def)
  have 1: "s32 a = d - h"
    unfolding a_def using assms by (intro s32_u) simp_all
  have "(d - a) mod 2 ^ 32 = (d - (d - h)) mod 2 ^ 32"
    unfolding a_def by (simp add: mod_diff_right_eq)
  then have "(d - a) mod 2 ^ 32 = h mod 2 ^ 32" by simp
  then have 2: "s32 ((d - a) mod 2 ^ bits) = h"
    using assms s32_u [of h] by (simp add: s32_mod_bits [OF assms(1)])
  show ?thesis by (simp add: diagonalStart_def Let_def adv 1 2)
qed

lemma diagonalLoop_first_18_14:
  "diagonalLoop 18 (- 14) 14 =
     [(- 14, 14), (- 13, 13), (- 12, 12), (- 11, 11), (- 10, 10), (- 9, 9), (- 8, 8), (- 7, 7),
      (- 6, 6), (- 5, 5), (- 4, 4), (- 3, 3), (- 2, 2), (- 1, 1), (0, 0)]"
  by (simp add: diagonalLoop.simps)

text \<open>The assertion of the refresh, that both results are at most \<open>MAX_Z\<close>, never fails.\<close>

lemma clamped_le_MAX_Z: "u8 (std_clamp (int z) 0 (int m)) \<le> m"
proof -
  have "0 \<le> std_clamp (int z) 0 (int m)" "std_clamp (int z) 0 (int m) \<le> int m"
    by (auto simp: std_clamp_def)
  then show ?thesis using u8_le [of "std_clamp (int z) 0 (int m)"] by linarith
qed

lemma calc_le_MAX_Z:
  "calcFirstVisibleFloor env b s \<le> MAX_Z env" "calcLastVisibleFloor env s \<le> MAX_Z env"
  by (simp_all add: calcFirstVisibleFloor_def calcLastVisibleFloor_def Let_def clamped_le_MAX_Z)

subsection \<open>Floor bounds\<close>

lemma widenFloorRange_bounds:
  "m_floorMin (widenFloorRange iz s) \<le> m_floorMin s"
  "m_floorMax s \<le> m_floorMax (widenFloorRange iz s)"
  by (simp_all add: widenFloorRange_def)

lemma visitCell_bounds:
  "m_floorMin (visitCell env cam iz cell s) \<le> m_floorMin s
   \<and> m_floorMax s \<le> m_floorMax (visitCell env cam iz cell s)"
proof -
  have "m_floorMin (widenFloorRange iz t) \<le> m_floorMin s
        \<and> m_floorMax s \<le> m_floorMax (widenFloorRange iz t)"
    if "m_floorMin t = m_floorMin s" "m_floorMax t = m_floorMax s" for t
    using widenFloorRange_bounds [where s = t and iz = iz] that by simp
  then show ?thesis
    by (simp add: visitCell_def Let_def collectCreatures_def split: option.splits)
qed

lemma fold_bounds:
  assumes "\<And>x t. m_floorMin (f x t) \<le> m_floorMin t \<and> m_floorMax t \<le> m_floorMax (f x t)"
  shows "m_floorMin (fold f xs s) \<le> m_floorMin s \<and> m_floorMax s \<le> m_floorMax (fold f xs s)"
proof (induction xs arbitrary: s)
  case Nil
  show ?case by simp
next
  case (Cons x xs)
  show ?case using Cons.IH [of "f x s"] assms [of x s] by simp
qed

lemma cacheVisibleTiles_bounds:
  "m_floorMin (cacheVisibleTiles env cam f s) \<le> m_floorMin s
   \<and> m_floorMax s \<le> m_floorMax (cacheVisibleTiles env cam f s)"
  unfolding cacheVisibleTiles_def
  by (intro fold_bounds visitCell_bounds)

lemma geometryConsistent_cong:
  "m_visibleDimension s' = m_visibleDimension s \<Longrightarrow> m_drawDimension s' = m_drawDimension s
   \<Longrightarrow> geometryConsistent s' = geometryConsistent s"
  by (simp add: geometryConsistent_def)

lemma geometryConsistent_updateGeometry:
  "geometryConsistent s \<Longrightarrow> geometryConsistent (updateGeometry env d s)"
  by (simp add: geometryConsistent_def updateGeometry_def Let_def traceError_def
      refreshVisibleTiles_def refreshVisibleCreatures_def)

lemma draw_dimensions:
  "m_visibleDimension (draw env rect s) = m_visibleDimension s"
  "m_drawDimension (draw env rect s) = m_drawDimension s"
proof -
  have a: "m_visibleDimension
            (drawOverlays env (drawFloor env (checkFadeInFinished env (updateRectCache rect t))))
          = m_visibleDimension t"
    "m_drawDimension
            (drawOverlays env (drawFloor env (checkFadeInFinished env (updateRectCache rect t))))
          = m_drawDimension t" for t
    by (simp_all add: drawOverlays_def drawFloor_def checkFadeInFinished_def updateRectCache_def
        drawCreatureInformation_def drawText_def onFadeInFinished_def refreshVisibleTiles_def
        Let_def)
  show "m_visibleDimension (draw env rect s) = m_visibleDimension s"
    "m_drawDimension (draw env rect s) = m_drawDimension s"
    by (simp_all add: draw_def a refreshIfNeeded_def updateVisibleThings_fields)
qed

lemma call_geometryConsistent:
  assumes "geometryConsistent s"
  shows "geometryConsistent (call env c s)"
proof (cases c)
  case (Draw rect)
  then show ?thesis using assms
    by (simp add: geometryConsistent_cong [OF draw_dimensions])
next
  case (Move x y)
  then show ?thesis using assms
    by (simp add: geometryConsistent_def move_def Let_def onCameraMove_def refreshVisibleTiles_def)
next
  case (SetCameraPosition p)
  then show ?thesis using assms
    by (simp add: geometryConsistent_def setCameraPosition_def refreshVisibleTiles_def)
next
  case (FollowCreature x)
  then show ?thesis using assms
    by (simp add: geometryConsistent_def followCreature_def refreshVisibleTiles_def)
next
  case (SetFloorViewMode m)
  then show ?thesis using assms
    by (simp add: geometryConsistent_def setFloorViewMode_def resetLastCamera_def
        refreshVisibleTiles_def)
next
  case (SetVisibleDimension d)
  then show ?thesis using assms geometryConsistent_updateGeometry [OF assms, of env d]
    by (simp add: setVisibleDimension_def) (simp add: geometryConsistent_def traceError_def)
next
  case (SetAntiAliasingMode m)
  have "geometryConsistent
          (s\<lparr>m_scaleFactor := (if m = ANTIALIASING_SMOOTH_RETRO then 2 else 1)\<rparr>)"
    using assms by (simp add: geometryConsistent_def)
  then show ?thesis using SetAntiAliasingMode
    by (simp add: setAntiAliasingMode_def Let_def geometryConsistent_updateGeometry
        del: Int.nat_int)
next
  case (SetShader sh fi fo)
  then show ?thesis using assms
    by (simp add: geometryConsistent_def setShader_def Let_def split: option.splits)
next
  case (LockFirstVisibleFloor z)
  then show ?thesis using assms
    by (simp add: geometryConsistent_def lockFirstVisibleFloor_def refreshVisibleTiles_def)
next
  case UnlockFirstVisibleFloor
  then show ?thesis using assms
    by (simp add: geometryConsistent_def unlockFirstVisibleFloor_def refreshVisibleTiles_def)
next
  case (OnTileUpdate b)
  then show ?thesis using assms
    by (simp add: geometryConsistent_def onTileUpdate_def refreshVisibleTiles_def
        refreshVisibleCreatures_def)
next
  case OnMapCenterChange
  then show ?thesis using assms
    by (simp add: geometryConsistent_def onMapCenterChange_def refreshVisibleTiles_def)
next
  case (SetDrawLights enable)
  then show ?thesis using assms
    by (simp add: geometryConsistent_def setDrawLights_def)
qed

subsection \<open>The cells the diagonal loops visit\<close>

lemma set_diagonalLoop:
  "set (diagonalLoop w ix iy) = {(a, b). a + b = ix + iy \<and> ix \<le> a \<and> a < w \<and> 0 \<le> b}"
proof (induction w ix iy rule: diagonalLoop.induct)
  case (1 w ix iy)
  show ?case
  proof (cases "0 \<le> iy \<and> ix < w")
    case True
    have "set (diagonalLoop w ix iy) = insert (ix, iy) (set (diagonalLoop w (ix + 1) (iy - 1)))"
      using True by (subst diagonalLoop.simps) simp
    also have "\<dots> = insert (ix, iy) {(a, b). a + b = ix + iy \<and> ix + 1 \<le> a \<and> a < w \<and> 0 \<le> b}"
      using "1.IH" [OF True] by simp
    also have "\<dots> = {(a, b). a + b = ix + iy \<and> ix \<le> a \<and> a < w \<and> 0 \<le> b}"
      using True by auto
    finally show ?thesis .
  next
    case False
    then have "diagonalLoop w ix iy = []" by (subst diagonalLoop.simps) simp
    moreover have "{(a, b). a + b = ix + iy \<and> ix \<le> a \<and> a < w \<and> 0 \<le> b} = {}"
      using False by auto
    ultimately show ?thesis by simp
  qed
qed

lemma diagonalLoop_start:
  "0 \<le> iy \<Longrightarrow> ix < w \<Longrightarrow> diagonalLoop w ix iy = (ix, iy) # diagonalLoop w (ix + 1) (iy - 1)"
  by (subst diagonalLoop.simps) simp

lemma distinct_diagonalLoop: "distinct (diagonalLoop w ix iy)"
proof (induction w ix iy rule: diagonalLoop.induct)
  case (1 w ix iy)
  show ?case
  proof (cases "0 \<le> iy \<and> ix < w")
    case True
    have "(ix, iy) \<notin> set (diagonalLoop w (ix + 1) (iy - 1))"
      by (simp add: set_diagonalLoop)
    moreover have "distinct (diagonalLoop w (ix + 1) (iy - 1))"
      by (rule "1.IH" [OF True])
    moreover have "diagonalLoop w ix iy = (ix, iy) # diagonalLoop w (ix + 1) (iy - 1)"
      using True by (intro diagonalLoop_start) simp_all
    ultimately show ?thesis by simp
  next
    case False
    then have "diagonalLoop w ix iy = []" by (subst diagonalLoop.simps) simp
    then show ?thesis by simp
  qed
qed

text \<open>With the start of every diagonal known, the enumeration is a list of diagonals.\<close>

lemma diagonalCells_eq:
  assumes "32 \<le> bits" and "0 < w" and "0 < h" and "w + h \<le> 2 ^ 31"
  shows "diagonalCells bits w h = diagonalsBelow w h (nat (w + h - 1))"
proof -
  have n: "u32 (w + h - 1) = w + h - 1"
    using assms by (simp add: u32_def)
  have "(case diagonalStart bits h (int d) of (ix, iy) \<Rightarrow> diagonalLoop w ix iy)
          = diagonalLoop w (int d - h) h" if "d \<in> set [0 ..< nat (w + h - 1)]" for d
  proof -
    have "int d < 2 ^ 31" using that assms by simp
    then have "diagonalStart bits h (int d) = (int d - h, h)"
      using assms by (intro diagonalStart_eq) simp_all
    then show ?thesis by simp
  qed
  then have eq: "map (\<lambda>d. case diagonalStart bits h (int d) of (ix, iy) \<Rightarrow> diagonalLoop w ix iy)
               [0 ..< nat (w + h - 1)]
             = map (\<lambda>d. diagonalLoop w (int d - h) h) [0 ..< nat (w + h - 1)]"
    by (intro map_cong refl)
  show ?thesis
    unfolding diagonalCells_def Let_def n diagonalsBelow_def map_map comp_def eq
    by (rule refl)
qed

lemma set_diagonalsBelow:
  "set (diagonalsBelow w h n)
     = {(a, b). 0 \<le> a + b \<and> a + b < int n \<and> a < w \<and> 0 \<le> b \<and> b \<le> h}"
proof -
  have "set (diagonalsBelow w h n)
          = (\<Union>d\<in>{0 ..< n}. {(a, b). a + b = int d \<and> int d - h \<le> a \<and> a < w \<and> 0 \<le> b})"
    by (simp add: diagonalsBelow_def set_diagonalLoop)
  also have "\<dots> = {(a, b). 0 \<le> a + b \<and> a + b < int n \<and> a < w \<and> 0 \<le> b \<and> b \<le> h}"
  proof (intro set_eqI iffI; clarify)
    fix a b d
    assume "d \<in> {0 ..< n}" "a + b = int d" "int d - h \<le> a" "a < w" "0 \<le> b"
    then show "0 \<le> a + b \<and> a + b < int n \<and> a < w \<and> 0 \<le> b \<and> b \<le> h" by auto
  next
    fix a b :: int
    assume h: "0 \<le> a + b" "a + b < int n" "a < w" "0 \<le> b" "b \<le> h"
    then have "nat (a + b) \<in> {0 ..< n}" "a + b = int (nat (a + b))" by auto
    then show "(a, b) \<in> (\<Union>d\<in>{0 ..< n}.
          {(a, b). a + b = int d \<and> int d - h \<le> a \<and> a < w \<and> 0 \<le> b})"
      using h by (intro UN_I [of "nat (a + b)"]) auto
  qed
  finally show ?thesis .
qed

lemma diagonalsBelow_Suc:
  "diagonalsBelow w h (Suc n) = diagonalsBelow w h n @ diagonalLoop w (int n - h) h"
  by (simp add: diagonalsBelow_def)

lemma distinct_diagonalsBelow: "distinct (diagonalsBelow w h n)"
proof (induction n)
  case 0
  show ?case by (simp add: diagonalsBelow_def)
next
  case (Suc n)
  have "set (diagonalsBelow w h n) \<inter> set (diagonalLoop w (int n - h) h) = {}"
    by (auto simp: set_diagonalsBelow set_diagonalLoop)
  then show ?case using Suc by (simp add: diagonalsBelow_Suc distinct_diagonalLoop)
qed

lemma sorted_diagonalsBelow: "sorted (map (\<lambda>c. fst c + snd c) (diagonalsBelow w h n))"
proof (induction n)
  case 0
  show ?case by (simp add: diagonalsBelow_def)
next
  case (Suc n)
  have a: "\<forall>c\<in>set (diagonalLoop w (int n - h) h). fst c + snd c = int n"
    by (auto simp: set_diagonalLoop)
  have b: "\<forall>c\<in>set (diagonalsBelow w h n). fst c + snd c < int n"
    by (auto simp: set_diagonalsBelow)
  have "sorted (map (\<lambda>c. fst c + snd c) (diagonalLoop w (int n - h) h))"
    using a by (induction "diagonalLoop w (int n - h) h") (auto simp: sorted_wrt_iff_nth_less)
  then show ?case
    using Suc a b by (fastforce simp: diagonalsBelow_Suc sorted_append)
qed

lemma lookUp_no_tiles:
  "g_map_getTile env = (\<lambda>p. None) \<Longrightarrow> lookUp env l f u c = f"
proof (induction env l f u c rule: lookUp.induct)
  case (1 env l f u c)
  have t: "tileLimitsFloorsView env p b = False" for p b
    using "1.prems" by (simp add: tileLimitsFloorsView_def)
  show ?case
  proof (cases "coveredUp (MAX_Z env) 1 c")
    case None
    then show ?thesis by (subst lookUp.simps) simp
  next
    case (Some c')
    note c = this
    show ?thesis
    proof (cases "up (MAX_Z env) u")
      case None
      then show ?thesis using c by (subst lookUp.simps) simp
    next
      case (Some u')
      have "lookUp env l f u' c' = f" if "f \<le> pos_z u'"
        using "1.IH" [OF c Some that] t "1.prems" by simp
      then show ?thesis using c Some by (subst lookUp.simps) (simp add: t)
    qed
  qed
qed

lemma lookAroundAll_no_tiles:
  "g_map_getTile env = (\<lambda>p. None) \<Longrightarrow> lookAroundAll env cam f offs = f"
proof (induction offs arbitrary: f)
  case Nil
  show ?case by simp
next
  case (Cons a offs)
  obtain ix iy where a: "a = (ix, iy)" by (cases a)
  have "lookAround env cam f ix iy = f"
    using Cons.prems by (simp add: lookAround_def Let_def lookUp_no_tiles)
  then show ?case using Cons by (simp add: a)
qed

lemma underground_view_eq:
  "underground_view = example_view\<lparr>m_follow := False,
     m_customCameraPosition := underground_position, m_refreshVisibleTiles := True\<rparr>"
  by (simp add: underground_view_def setCameraPosition_def refreshVisibleTiles_def)

lemma underground_view_camera: "getCameraPosition env underground_view = underground_position"
  by (simp add: getCameraPosition_custom isFollowingCreature_def underground_view_eq)

lemma first_diagonal_18_14:
  assumes "32 \<le> bits"
  shows "take 15 (diagonalCells bits 18 14) =
     [(- 14, 14), (- 13, 13), (- 12, 12), (- 11, 11), (- 10, 10), (- 9, 9), (- 8, 8), (- 7, 7),
      (- 6, 6), (- 5, 5), (- 4, 4), (- 3, 3), (- 2, 2), (- 1, 1), (0, 0)]"
proof -
  have e: "[0 ..< 31] = 0 # [Suc 0 ..< 31]"
    by (rule upt_conv_Cons) simp
  have "diagonalCells bits 18 14 = diagonalsBelow 18 14 31"
    using diagonalCells_eq [OF assms, of 18 14] by simp
  also have "\<dots> = diagonalLoop 18 (- 14) 14
            @ concat (map (\<lambda>d. diagonalLoop 18 (int d - 14) 14) [Suc 0 ..< 31])"
    unfolding diagonalsBelow_def e by simp
  finally show ?thesis by (simp add: diagonalLoop_first_18_14)
qed

section \<open>The claims\<close>

text \<open>
  Claim C1 fails on the code. The view sees no tile around a fixed camera on
  floor \<open>7\<close>. The first frame refreshes and sets both bounds to \<open>7\<close>. A tile
  update marks the cache dirty and the next frame refreshes with the camera
  where the last refresh saw it: the clearing loop has counted \<^verbatim>\<open>m_floorMin\<close> up
  to \<open>8\<close>, the reset is skipped, and no tile lowers it again. The refresh ends
  with \<open>floorMin = 8 > 7 = cameraFloor = floorMax\<close>, and every further such
  refresh moves \<open>floorMin\<close> one floor further away.
\<close>

theorem floor_bounds_after_unmoved_refresh:
  "isValid (getCameraPosition example_env refreshed_twice)
   \<and> pos_z (getCameraPosition example_env refreshed_twice) = 7
   \<and> m_floorMin refreshed_once = 7 \<and> m_floorMax refreshed_once = 7
   \<and> m_floorMin refreshed_twice = 8 \<and> m_floorMax refreshed_twice = 7
   \<and> m_floorMin refreshed_thrice = 9 \<and> m_floorMax refreshed_thrice = 7"
proof -
  have step: "m_floorMin (draw example_env example_rect (onTileUpdate False s))
                = Suc (max (m_floorMin s) (m_floorMax s))
              \<and> m_floorMax (draw example_env example_rect (onTileUpdate False s)) = m_floorMax s
              \<and> m_lastCameraPosition (draw example_env example_rect (onTileUpdate False s))
                  = example_position
              \<and> getCameraPosition example_env (draw example_env example_rect (onTileUpdate False s))
                  = example_position"
    if "getCameraPosition example_env s = example_position"
      and "m_lastCameraPosition s = example_position" for s
  proof -
    define t where "t = onTileUpdate False s"
    have c: "getCameraPosition example_env t = example_position"
      by (simp add: t_def getCameraPosition_onTileUpdate that)
    have v: "isValid (getCameraPosition example_env t)"
      by (simp add: c example_position_valid)
    have f: "m_floorMin t = m_floorMin s" "m_floorMax t = m_floorMax s"
      "m_lastCameraPosition t = example_position" "m_refreshVisibleTiles t"
      by (simp_all add: t_def onTileUpdate_def refreshVisibleTiles_def that)
    have g: "getCameraPosition example_env (draw example_env example_rect t) = example_position"
      by (simp add: getCameraPosition_draw c)
    show ?thesis
      unfolding t_def [symmetric]
      by (simp add: g)
         (simp add: draw_def draw_after_refresh refreshIfNeeded_def f
            updateVisibleThings_floors_no_tiles [OF example_no_tiles v]
            updateVisibleThings_lastCameraPosition [OF v] c)
  qed
  have c1: "getCameraPosition example_env refreshed_once = example_position"
    by (simp add: refreshed_once_def getCameraPosition_draw camera_view_camera)
  have two: "m_floorMin refreshed_twice = 8" "m_floorMax refreshed_twice = 7"
    "m_lastCameraPosition refreshed_twice = example_position"
    "getCameraPosition example_env refreshed_twice = example_position"
    using step [OF c1 refreshed_once_fields(3)]
    by (simp_all add: refreshed_twice_def refreshed_once_fields)
  have three: "m_floorMin refreshed_thrice = 9" "m_floorMax refreshed_thrice = 7"
    using step [OF two(4) two(3)] by (simp_all add: refreshed_thrice_def two)
  show ?thesis
    by (simp add: two three example_position_valid refreshed_once_fields)
       (simp add: example_position_def)
qed

text \<open>
  Claim C2 fails on the code. For the draw dimension 18 by 14 of the default view
  (and \<^verbatim>\<open>uint_fast32_t\<close> of 64 bits) the first diagonal the loops enumerate is
  not the single cell \<open>(0, 0)\<close>: it starts at \<open>ix = -14\<close>, \<open>iy = 14\<close>, outside the
  grid in both coordinates, and reaches \<open>(0, 0)\<close> after fourteen cells with a
  negative \<open>ix\<close>.
\<close>

theorem diagonal_enumeration_leaves_grid:
  "take 15 (diagonalCells 64 18 14) =
     [(- 14, 14), (- 13, 13), (- 12, 12), (- 11, 11), (- 10, 10), (- 9, 9), (- 8, 8), (- 7, 7),
      (- 6, 6), (- 5, 5), (- 4, 4), (- 3, 3), (- 2, 2), (- 1, 1), (0, 0)]
   \<and> take 15 (diagonalCells 32 18 14) =
     [(- 14, 14), (- 13, 13), (- 12, 12), (- 11, 11), (- 10, 10), (- 9, 9), (- 8, 8), (- 7, 7),
      (- 6, 6), (- 5, 5), (- 4, 4), (- 3, 3), (- 2, 2), (- 1, 1), (0, 0)]"
  using first_diagonal_18_14 [of 64] first_diagonal_18_14 [of 32] by simp




text \<open>
  Claim C4. For every size \<open>D\<close> with both components odd and at least \<open>3\<close> whose
  derived buffer size fits within the maximum texture size,
  \<^verbatim>\<open>setVisibleDimension(D)\<close> succeeds: afterwards the visible dimension is \<open>D\<close>,
  the draw dimension is \<open>D + 3\<close> in each component, and no error was logged. When
  \<open>D\<close> is already the visible dimension the call changes nothing, so the draw
  dimension is the one the geometry update that set \<open>D\<close> left.
\<close>

theorem setVisibleDimension_accepted:
  assumes "odd (width d)" and "odd (height d)" and "3 \<le> width d" and "3 \<le> height d"
    and "\<not> bufferTooLarge env s d"
    and "d = m_visibleDimension s \<Longrightarrow> geometryConsistent s"
  shows "m_visibleDimension (setVisibleDimension env d s) = d
       \<and> m_drawDimension (setVisibleDimension env d s)
           = \<lparr>width = width d + 3, height = height d + 3\<rparr>
       \<and> events (setVisibleDimension env d s) = events s"
proof (cases "d = m_visibleDimension s")
  case True
  then show ?thesis using assms(6)
    by (simp add: setVisibleDimension_def geometryConsistent_def Size_add_def)
next
  case False
  have "width d smod 2 = 1" "height d smod 2 = 1"
    using assms by (simp_all add: smod_2_eq_1)
  then have u: "setVisibleDimension env d s = updateGeometry env d s"
    using False assms(3,4) by (simp add: setVisibleDimension_def Size_less_def Size_square_def)
  define ts where "ts = int (u8 (SPRITE_SIZE * m_scaleFactor s))"
  have ts: "0 \<le> ts" by (simp add: ts_def)
  have "0 \<le> (width d + 3) * ts" "0 \<le> (height d + 3) * ts"
    using assms(3,4) ts by simp_all
  then have "s32 ((width d + 3) * ts) \<le> (width d + 3) * ts"
    and "s32 ((height d + 3) * ts) \<le> (height d + 3) * ts"
    by (simp_all add: s32_le)
  moreover have "(width d + 3) * ts \<le> g_graphics_getMaxTextureSize env"
    and "(height d + 3) * ts \<le> g_graphics_getMaxTextureSize env"
    using assms(5) by (simp_all add: bufferTooLarge_def ts_def)
  ultimately have "\<not> (g_graphics_getMaxTextureSize env < s32 ((width d + 3) * ts)
                    \<or> g_graphics_getMaxTextureSize env < s32 ((height d + 3) * ts))"
    by linarith
  then show ?thesis
    by (simp add: u updateGeometry_def Size_add_def Size_mul_def Let_def ts_def [symmetric]
        refreshVisibleTiles_def refreshVisibleCreatures_def)
qed


theorem setVisibleDimension_accepted_witness:
  "geometryConsistent example_view
   \<and> \<not> bufferTooLarge example_env example_view \<lparr>width = 17, height = 13\<rparr>
   \<and> m_visibleDimension (setVisibleDimension example_env \<lparr>width = 17, height = 13\<rparr> example_view)
       = \<lparr>width = 17, height = 13\<rparr>
   \<and> m_drawDimension (setVisibleDimension example_env \<lparr>width = 17, height = 13\<rparr> example_view)
       = \<lparr>width = 20, height = 16\<rparr>
   \<and> events (setVisibleDimension example_env \<lparr>width = 17, height = 13\<rparr> example_view)
       = events example_view"
proof -
  have g: "geometryConsistent example_view"
    by (simp add: geometryConsistent_def example_view_eq Size_add_def)
  have b: "\<not> bufferTooLarge example_env example_view \<lparr>width = 17, height = 13\<rparr>"
    by (simp add: bufferTooLarge_def example_view_eq blank_view_def example_env_def
        SPRITE_SIZE_def u8_def)
  show ?thesis
    using setVisibleDimension_accepted [of "\<lparr>width = 17, height = 13\<rparr>" example_env example_view]
      g b
    by simp
qed

text \<open>
  Claim C5 fails on the code. The camera is set to the valid position
  \<open>(100, 100, 254)\<close> on a view without a lock, with \<open>MAX_Z = 15\<close>.
  \<^verbatim>\<open>calcLastVisibleFloor\<close> adds the underground range to the camera's floor in a
  \<^verbatim>\<open>uint8_t\<close>: \<open>254 + 2\<close> wraps to \<open>0\<close> before the clamp to \<open>[0, MAX_Z]\<close>, which
  leaves \<open>0\<close>. \<^verbatim>\<open>calcFirstVisibleFloor\<close> starts at floor \<open>252\<close>, which the clamp
  brings to \<open>15\<close>. The first visible floor is above the last one, where the claim
  has the first at most the last for every camera position.
\<close>

theorem visible_floor_range_inverted:
  "deep_view = setCameraPosition \<lparr>pos_x = 100, pos_y = 100, pos_z = 254\<rparr> example_view
   \<and> isValid (getCameraPosition example_env deep_view)
   \<and> m_lockedFirstVisibleFloor deep_view = - 1
   \<and> MAX_Z example_env = 15
   \<and> calcFirstVisibleFloor example_env True deep_view = 15
   \<and> calcLastVisibleFloor example_env deep_view = 0
   \<and> \<not> calcFirstVisibleFloor example_env True deep_view
         \<le> calcLastVisibleFloor example_env deep_view"
proof -
  have a: "m_lockedFirstVisibleFloor deep_view = - 1"
    by (simp add: deep_view_eq example_view_eq blank_view_def)
  have b: "isValid deep_position"
    by (simp add: deep_position_def isValid_def)
  have c: "pos_z deep_position = 254" by (simp add: deep_position_def)
  have m: "MAX_Z example_env = 15" by (simp add: example_env_def)
  have f: "calcFirstVisibleFloor example_env True deep_view = 15"
    by (simp add: calcFirstVisibleFloor_def a deep_view_camera b c m Let_def around3x3_def
        lookAround_deep SEA_FLOOR_def AWARE_UNDEGROUND_FLOOR_RANGE_def UNDERGROUND_FLOOR_def
        u8_def std_clamp_def)
  have l: "calcLastVisibleFloor example_env deep_view = 0"
    by (simp add: calcLastVisibleFloor_def a deep_view_camera b c m Let_def
        SEA_FLOOR_def AWARE_UNDEGROUND_FLOOR_RANGE_def u8_def std_clamp_def)
  show ?thesis using a b f l m
    by (simp add: deep_view_camera) (simp add: deep_view_def deep_position_def)
qed

text \<open>
  Claim C6. When floor fading is enabled, the fade-in-finished notification fires
  in \<^verbatim>\<open>draw\<close> only at a frame where the fade level of the topmost visible floor is
  exactly \<open>1\<close> and differs from the last observed level, and it fires at most
  once per reveal transition: a frame fires it once, and after it has fired no
  run of calls fires it again as long as no frame's refresh takes the
  floor-reveal branch, the one place that resets the last observed level.
\<close>

theorem fade_in_finished_once:
  assumes "FadeInFinished \<in> set (frameEvents env rect s)"
  shows "hdr_canFloorFade env (stateAtFadeCheck env rect s)
     \<and> hdr_getFadeLevel env (stateAtFadeCheck env rect s)
          (m_cachedFirstVisibleFloor (stateAtFadeCheck env rect s)) = 1
     \<and> m_lastFadeLevel (stateAtFadeCheck env rect s) \<noteq> 1
     \<and> fadeInFinishedCount (draw env rect s) = fadeInFinishedCount s + 1
     \<and> (noFloorRevealed cs (draw env rect s)
          \<longrightarrow> fadeInFinishedCount (run cs (draw env rect s))
                = fadeInFinishedCount (draw env rect s))"
  using draw_fires [OF assms] run_quiet [of "draw env rect s" cs] by simp

theorem fade_in_finished_once_witness:
  "FadeInFinished \<in> set (frameEvents fading_env example_rect faded_view)
   \<and> hdr_canFloorFade fading_env (stateAtFadeCheck fading_env example_rect faded_view)
   \<and> m_lastFadeLevel (stateAtFadeCheck fading_env example_rect faded_view) \<noteq> 1
   \<and> fadeInFinishedCount (draw fading_env example_rect faded_view)
       = fadeInFinishedCount faded_view + 1
   \<and> noFloorRevealed [(fading_env, OnTileUpdate False), (fading_env, Draw example_rect)]
         (draw fading_env example_rect faded_view)
   \<and> fadeInFinishedCount
         (run [(fading_env, OnTileUpdate False), (fading_env, Draw example_rect)]
            (draw fading_env example_rect faded_view))
       = fadeInFinishedCount (draw fading_env example_rect faded_view)"
proof -
  have n: "noFloorRevealed [(fading_env, OnTileUpdate False), (fading_env, Draw example_rect)]
         (draw fading_env example_rect faded_view)"
    using faded_view_next_frame by simp
  show ?thesis
    using fade_in_finished_once [OF faded_view_fires,
        of "[(fading_env, OnTileUpdate False), (fading_env, Draw example_rect)]"]
      faded_view_fires n
    by simp
qed

text \<open>
  Claim C7. For every frame in which the camera position is invalid, \<^verbatim>\<open>draw(rect)\<close>
  still performs the floor drawing pass, but the creature-information pass, the
  light pass and the text pass are all skipped for that frame.
\<close>

theorem draw_invalid_camera:
  assumes "\<not> isValid (getCameraPosition env s)"
  shows "(\<exists>zs. DrawFloor zs \<in> set (frameEvents env rect s))
         \<and> DrawCreatureInformation \<notin> set (frameEvents env rect s)
         \<and> LightViewDraw \<notin> set (frameEvents env rect s)
         \<and> DrawText \<notin> set (frameEvents env rect s)"
proof -
  define s3 where "s3 = checkFadeInFinished env (updateRectCache rect s)"
  have r: "refreshIfNeeded env s = s"
    using assms by (simp add: refreshIfNeeded_def updateVisibleThings_invalid)
  have cam: "getCameraPosition env (drawFloor env s3) = getCameraPosition env s"
    by (simp add: s3_def getCameraPosition_drawFloor getCameraPosition_checkFadeInFinished
        getCameraPosition_updateRectCache)
  have d: "draw env rect s = drawFloor env s3"
    using assms by (simp add: draw_def r s3_def [symmetric] drawOverlays_def cam)
  have "events s3 = events s \<or> events s3 = events s @ [FadeInFinished]"
    using events_checkFadeInFinished [of env "updateRectCache rect s"]
    by (simp add: s3_def events_updateRectCache)
  then show ?thesis
    by (auto simp: frameEvents_def d drawFloor_def)
qed

theorem draw_invalid_camera_witness:
  "\<not> isValid (getCameraPosition example_env example_view)
   \<and> (\<exists>zs. DrawFloor zs \<in> set (frameEvents example_env example_rect example_view))
   \<and> DrawCreatureInformation \<notin> set (frameEvents example_env example_rect example_view)
   \<and> LightViewDraw \<notin> set (frameEvents example_env example_rect example_view)
   \<and> DrawText \<notin> set (frameEvents example_env example_rect example_view)"
  using draw_invalid_camera [OF example_invalid, of example_rect] example_invalid by simp

text \<open>
  Claim C8. Starting from a zero residual pixel offset with a fixed camera (the
  view follows no creature), \<^verbatim>\<open>move(32, 0)\<close> with \<open>SPRITE_SIZE = 32\<close> increments
  the camera's x coordinate by exactly one tile and leaves the residual x offset
  at \<open>0\<close>, while \<^verbatim>\<open>move(10, 0)\<close> leaves the camera tile unchanged and the residual
  x offset at \<open>10\<close>.
\<close>

theorem move_snaps_to_tile_grid:
  assumes "m_moveOffset s = \<lparr>pt_x = 0, pt_y = 0\<rparr>" and "\<not> isFollowingCreature s"
  shows "getCameraPosition env (move 32 0 s)
           = (getCameraPosition env s)\<lparr>pos_x := pos_x (getCameraPosition env s) + 1\<rparr>
         \<and> m_moveOffset (move 32 0 s) = \<lparr>pt_x = 0, pt_y = 0\<rparr>
         \<and> getCameraPosition env (move 10 0 s) = getCameraPosition env s
         \<and> m_moveOffset (move 10 0 s) = \<lparr>pt_x = 10, pt_y = 0\<rparr>"
proof -
  have cam: "getCameraPosition env (move x y s) = m_customCameraPosition (move x y s)" for x y
    using assms(2) by (simp add: getCameraPosition_custom isFollowingCreature_move)
  show ?thesis
    using assms
    by (simp add: cam getCameraPosition_custom)
       (simp add: move_def onCameraMove_def refreshVisibleTiles_def SPRITE_SIZE_def Let_def
          signed_divide_int_def signed_modulo_int_def)
qed

theorem move_snaps_to_tile_grid_witness:
  "getCameraPosition example_env (move 32 0 (setCameraPosition example_position example_view))
     = \<lparr>pos_x = 101, pos_y = 100, pos_z = 7\<rparr>
   \<and> m_moveOffset (move 32 0 (setCameraPosition example_position example_view))
     = \<lparr>pt_x = 0, pt_y = 0\<rparr>
   \<and> getCameraPosition example_env (move 10 0 (setCameraPosition example_position example_view))
     = \<lparr>pos_x = 100, pos_y = 100, pos_z = 7\<rparr>
   \<and> m_moveOffset (move 10 0 (setCameraPosition example_position example_view))
     = \<lparr>pt_x = 10, pt_y = 0\<rparr>"
proof -
  let ?s = "setCameraPosition example_position example_view"
  have a: "m_moveOffset ?s = \<lparr>pt_x = 0, pt_y = 0\<rparr>"
    by (simp add: setCameraPosition_def refreshVisibleTiles_def example_view_eq blank_view_def)
  have b: "\<not> isFollowingCreature ?s"
    by (simp add: setCameraPosition_def refreshVisibleTiles_def isFollowingCreature_def)
  have c: "getCameraPosition example_env ?s = \<lparr>pos_x = 100, pos_y = 100, pos_z = 7\<rparr>"
    by (simp add: getCameraPosition_custom b)
       (simp add: setCameraPosition_def refreshVisibleTiles_def example_position_def)
  show ?thesis
    using move_snaps_to_tile_grid [OF a b, of example_env] by (simp add: c)
qed

text \<open>
  Claim C10. Calling \<^verbatim>\<open>setShader\<close> with the shader that is already the active
  shader is a complete no-op whatever the fade-in and fade-out arguments are: the
  fade timer, both durations, the pending next shader and the switch-done flag
  (and every other member) are left unchanged.
\<close>

theorem setShader_same_shader_noop:
  "m_shader s = shader \<Longrightarrow> setShader env shader fadein fadeout s = s"
  by (simp add: setShader_def)

theorem setShader_same_shader_noop_witness:
  "m_shader example_view = Some 0
   \<and> setShader example_env (Some 0) 2 3 example_view = example_view"
proof -
  have a: "m_shader example_view = Some 0"
    by (simp add: example_view_eq)
  show ?thesis
    using setShader_same_shader_noop [OF a, of example_env 2 3] a by simp
qed

section \<open>Further properties\<close>

text \<open>
  After a refresh with a valid camera that is not where the last refresh saw it,
  the floor bounds enclose the camera's floor, whatever tiles the map holds: the
  refresh resets both bounds to that floor and caching a tile only widens them.
\<close>

theorem floor_bounds_after_camera_moved:
  assumes "isValid (getCameraPosition env s)"
    and "m_lastCameraPosition s \<noteq> getCameraPosition env s"
  shows "m_floorMin (updateVisibleThings env s) \<le> pos_z (getCameraPosition env s)
       \<and> pos_z (getCameraPosition env s) \<le> m_floorMax (updateVisibleThings env s)"
proof -
  define cam where "cam = getCameraPosition env s"
  define s4 where "s4 = refreshFloorRange env cam (beginRefresh cam s)"
  define t where "t = (updateFading env cam (m_cachedFirstVisibleFloor s)
                         (firstFloorToCache env s4) s4)\<lparr>m_lastCameraPosition := cam\<rparr>"
  have u: "updateVisibleThings env s
             = (cacheVisibleTiles env cam (firstFloorToCache env s4) t)
                 \<lparr>m_refreshVisibleCreatures := False, m_refreshVisibleTiles := False\<rparr>"
    by (simp add: updateVisibleThings_valid [OF assms(1)] t_def s4_def cam_def)
  have "m_floorMin t = pos_z cam" "m_floorMax t = pos_z cam"
    using assms(2)
    by (simp_all add: t_def s4_def updateFading_fields refreshFloorRange_def
        updateFloorRange_fields beginRefresh_fields cam_def)
  then show ?thesis
    using cacheVisibleTiles_bounds [of env cam "firstFloorToCache env s4" t]
    by (simp add: u cam_def [symmetric])
qed

theorem floor_bounds_after_camera_moved_witness:
  "isValid (getCameraPosition example_env camera_view)
   \<and> m_lastCameraPosition camera_view \<noteq> getCameraPosition example_env camera_view
   \<and> m_floorMin (updateVisibleThings example_env camera_view)
       \<le> pos_z (getCameraPosition example_env camera_view)
   \<and> pos_z (getCameraPosition example_env camera_view)
       \<le> m_floorMax (updateVisibleThings example_env camera_view)"
proof -
  have v: "isValid (getCameraPosition example_env camera_view)"
    by (simp add: camera_view_camera example_position_valid)
  have l: "m_lastCameraPosition camera_view \<noteq> getCameraPosition example_env camera_view"
    by (simp add: camera_view_camera)
       (simp add: camera_view_eq example_view_eq blank_view_def Position_default_def
          example_position_def)
  show ?thesis using floor_bounds_after_camera_moved [OF v l] v l by simp
qed

text \<open>
  For every draw dimension of at least one tile each way and every width of
  \<^verbatim>\<open>uint_fast32_t\<close> of at least 32 bits, the loops visit no cell twice and
  visit the cells in the order of their anti-diagonal \<open>ix + iy\<close>. They visit every
  cell of the grid, and besides them the cells with a negative \<open>ix\<close> and those
  of the row \<open>iy = height\<close>; the first cell visited is \<open>(- height, height)\<close>.
\<close>

theorem diagonal_enumeration_characterised:
  assumes "32 \<le> bits" and "0 < w" and "0 < h" and "w + h \<le> 2 ^ 31"
  shows "distinct (diagonalCells bits w h)
       \<and> sorted (map (\<lambda>c. fst c + snd c) (diagonalCells bits w h))
       \<and> set (diagonalCells bits w h)
           = {(ix, iy). ix < w \<and> 0 \<le> iy \<and> iy \<le> h \<and> 0 \<le> ix + iy \<and> ix + iy < w + h - 1}
       \<and> hd (diagonalCells bits w h) = (- h, h)"
proof -
  obtain m where m: "nat (w + h - 1) = Suc m"
    using assms by (cases "nat (w + h - 1)") auto
  have e: "[0 ..< Suc m] = 0 # [Suc 0 ..< Suc m]"
    by (rule upt_conv_Cons) simp
  have s: "diagonalLoop w (- h) h = (- h, h) # diagonalLoop w (- h + 1) (h - 1)"
    using assms by (intro diagonalLoop_start) simp_all
  have "diagonalsBelow w h (Suc m)
          = diagonalLoop w (- h) h
            @ concat (map (\<lambda>d. diagonalLoop w (int d - h) h) [Suc 0 ..< Suc m])"
    unfolding diagonalsBelow_def e by simp
  then have f: "hd (diagonalsBelow w h (Suc m)) = (- h, h)"
    by (simp add: s)
  have i: "int (Suc m) = w + h - 1" using assms m by linarith
  have c: "diagonalCells bits w h = diagonalsBelow w h (Suc m)"
    using diagonalCells_eq [OF assms] m by simp
  have "{(a, b). 0 \<le> a + b \<and> a + b < int (Suc m) \<and> a < w \<and> 0 \<le> b \<and> b \<le> h}
          = {(ix, iy). ix < w \<and> 0 \<le> iy \<and> iy \<le> h \<and> 0 \<le> ix + iy \<and> ix + iy < w + h - 1}"
    unfolding i by auto
  then show ?thesis
    unfolding c using f distinct_diagonalsBelow [of w h "Suc m"]
      sorted_diagonalsBelow [of w h "Suc m"] set_diagonalsBelow [of w h "Suc m"]
    by simp
qed

theorem diagonal_enumeration_characterised_witness:
  "distinct (diagonalCells 32 18 14)
   \<and> sorted (map (\<lambda>c. fst c + snd c) (diagonalCells 32 18 14))
   \<and> set (diagonalCells 32 18 14)
       = {(ix, iy). ix < 18 \<and> 0 \<le> iy \<and> iy \<le> 14 \<and> 0 \<le> ix + iy \<and> ix + iy < 31}
   \<and> hd (diagonalCells 32 18 14) = (- 14, 14)"
  using diagonal_enumeration_characterised [of 32 18 14] by simp

text \<open>
  Once a geometry update has set the dimensions, the draw dimension is the
  visible dimension plus 3 after every run of calls.
\<close>

theorem geometry_stays_consistent:
  "geometryConsistent s \<Longrightarrow> geometryConsistent (run cs s)"
proof (induction cs arbitrary: s)
  case Nil
  then show ?case by simp
next
  case (Cons a cs)
  obtain env c where a: "a = (env, c)" by (cases a)
  show ?case using Cons.IH [OF call_geometryConsistent [OF Cons.prems, of env c]] by (simp add: a)
qed

theorem geometry_stays_consistent_witness:
  "geometryConsistent example_view
   \<and> geometryConsistent
        (run [(example_env, SetVisibleDimension \<lparr>width = 17, height = 13\<rparr>),
              (example_env, SetAntiAliasingMode ANTIALIASING_SMOOTH_RETRO),
              (example_env, Draw example_rect)] example_view)"
proof -
  have g: "geometryConsistent example_view"
    by (simp add: geometryConsistent_def example_view_eq Size_add_def)
  show ?thesis
    using geometry_stays_consistent [OF g,
        of "[(example_env, SetVisibleDimension \<lparr>width = 17, height = 13\<rparr>),
              (example_env, SetAntiAliasingMode ANTIALIASING_SMOOTH_RETRO),
              (example_env, Draw example_rect)]"] g
    by simp
qed

text \<open>
  The assertion of the refresh never fails: both floor results are at most
  \<open>MAX_Z\<close>.
\<close>

theorem refresh_assertion_holds:
  "calcFirstVisibleFloor env b s \<le> MAX_Z env \<and> calcLastVisibleFloor env s \<le> MAX_Z env"
  by (simp add: calc_le_MAX_Z)

text \<open>
  The two scenarios of the specification, in a world without tiles: a camera at
  sea level sees the floors \<open>0\<close> to \<open>7\<close>; a camera on floor \<open>10\<close> sees the floors
  \<open>8\<close> to \<open>12\<close>.
\<close>

theorem scenario_camera_at_sea_level:
  "m_visibleDimension camera_view = \<lparr>width = 15, height = 11\<rparr>
   \<and> pos_z (getCameraPosition example_env camera_view) = 7
   \<and> calcFirstVisibleFloor example_env True camera_view = 0
   \<and> calcLastVisibleFloor example_env camera_view = 7"
proof -
  have a: "m_lockedFirstVisibleFloor camera_view = - 1"
    by (simp add: camera_view_eq example_view_eq blank_view_def)
  have m: "MAX_Z example_env = 15" by (simp add: example_env_def)
  have z: "pos_z example_position = 7" by (simp add: example_position_def)
  have "calcFirstVisibleFloor example_env True camera_view = 0"
    by (simp add: calcFirstVisibleFloor_def a camera_view_camera example_position_valid z m
        Let_def lookAroundAll_no_tiles [OF example_no_tiles] SEA_FLOOR_def u8_def std_clamp_def)
  moreover have "calcLastVisibleFloor example_env camera_view = 7"
    by (simp add: calcLastVisibleFloor_def a camera_view_camera example_position_valid z m
        Let_def SEA_FLOOR_def u8_def std_clamp_def)
  ultimately show ?thesis
    by (simp add: camera_view_camera z) (simp add: camera_view_eq example_view_eq)
qed

theorem scenario_camera_underground:
  "pos_z (getCameraPosition example_env underground_view) = 10
   \<and> m_lockedFirstVisibleFloor underground_view = - 1
   \<and> calcFirstVisibleFloor example_env True underground_view = 8
   \<and> calcLastVisibleFloor example_env underground_view = 12"
proof -
  have a: "m_lockedFirstVisibleFloor underground_view = - 1"
    by (simp add: underground_view_eq example_view_eq blank_view_def)
  have m: "MAX_Z example_env = 15" by (simp add: example_env_def)
  have z: "pos_z underground_position = 10" by (simp add: underground_position_def)
  have v: "isValid underground_position" by (simp add: underground_position_def isValid_def)
  have "calcFirstVisibleFloor example_env True underground_view = 8"
    by (simp add: calcFirstVisibleFloor_def a underground_view_camera v z m
        Let_def lookAroundAll_no_tiles [OF example_no_tiles] SEA_FLOOR_def
        AWARE_UNDEGROUND_FLOOR_RANGE_def UNDERGROUND_FLOOR_def u8_def std_clamp_def)
  moreover have "calcLastVisibleFloor example_env underground_view = 12"
    by (simp add: calcLastVisibleFloor_def a underground_view_camera v z m
        Let_def SEA_FLOOR_def AWARE_UNDEGROUND_FLOOR_RANGE_def u8_def std_clamp_def)
  ultimately show ?thesis by (simp add: underground_view_camera z a)
qed


text \<open>
  The order of the visible floors away from the top of the \<^verbatim>\<open>uint8_t\<close> range.
  The lock member is \<open>-1\<close> or the \<^verbatim>\<open>uint8_t\<close> that \<^verbatim>\<open>lockFirstVisibleFloor\<close> stored.
  When, with no lock set, the camera is invalid or on a floor of at most \<open>253\<close>
  (as every floor of \<open>0..MAX_Z\<close> is when \<open>MAX_Z\<close> is at most \<open>253\<close>), the first
  visible floor is at most the last, for both values of the limit check. For
  every camera and lock the cached last floor that a refresh stores is the larger
  of the two results, so the cached pair is ordered after every refresh.
\<close>

theorem visible_floor_range_ordered:
  "((m_lockedFirstVisibleFloor s = - 1 \<or> 0 \<le> m_lockedFirstVisibleFloor s)
      \<and> (m_lockedFirstVisibleFloor s = - 1 \<and> isValid (getCameraPosition env s)
           \<longrightarrow> pos_z (getCameraPosition env s) \<le> 253)
      \<longrightarrow> calcFirstVisibleFloor env b s \<le> calcLastVisibleFloor env s)
   \<and> m_cachedLastVisibleFloor (updateFloorRange env cam s)
       = max (calcFirstVisibleFloor env (m_floorViewMode s \<noteq> ALWAYS) s)
             (calcLastVisibleFloor env s)
   \<and> m_cachedFirstVisibleFloor (updateFloorRange env cam s)
       \<le> m_cachedLastVisibleFloor (updateFloorRange env cam s)
   \<and> (m_cachedFirstVisibleFloor s \<le> m_cachedLastVisibleFloor s
        \<longrightarrow> m_cachedFirstVisibleFloor (updateVisibleThings env s)
              \<le> m_cachedLastVisibleFloor (updateVisibleThings env s))"
  using calcFirst_le_calcLast [of s env b] updateFloorRange_cached(2) [of env cam s]
    updateFloorRange_ordered [of env cam s] updateVisibleThings_ordered [of s env]
  by blast

theorem visible_floor_range_ordered_witness:
  "m_lockedFirstVisibleFloor camera_view = - 1
   \<and> isValid (getCameraPosition example_env camera_view)
   \<and> pos_z (getCameraPosition example_env camera_view) \<le> 253
   \<and> calcFirstVisibleFloor example_env True camera_view
        \<le> calcLastVisibleFloor example_env camera_view
   \<and> m_cachedFirstVisibleFloor camera_view \<le> m_cachedLastVisibleFloor camera_view
   \<and> m_cachedFirstVisibleFloor (updateVisibleThings example_env camera_view)
        \<le> m_cachedLastVisibleFloor (updateVisibleThings example_env camera_view)"
proof -
  have a: "m_lockedFirstVisibleFloor camera_view = - 1"
    by (simp add: camera_view_eq example_view_eq blank_view_def)
  have b: "isValid (getCameraPosition example_env camera_view)"
    by (simp add: camera_view_camera example_position_def isValid_def)
  have c: "pos_z (getCameraPosition example_env camera_view) \<le> 253"
    by (simp add: camera_view_camera example_position_def)
  have d: "m_cachedFirstVisibleFloor camera_view \<le> m_cachedLastVisibleFloor camera_view"
    by (simp add: camera_view_eq example_view_eq blank_view_def)
  show ?thesis
    using visible_floor_range_ordered [of camera_view example_env True example_position] a b c d
    by simp
qed


text \<open>
  A size whose derived buffer size leaves the range of \<^verbatim>\<open>int\<close>. For the width
  \<open>67108861\<close> and the tile size \<open>32\<close> the product \<open>(67108861 + 3) * 32\<close> is \<open>2 ^ 31\<close>,
  which the \<^verbatim>\<open>int\<close> holds as \<open>- 2 ^ 31\<close>: the comparison with the maximum texture size
  of \<open>1000\<close> lets the size pass, no error is logged and the view takes it.
\<close>

theorem scenario_buffer_size_wraps:
  "bufferTooLarge example_env example_view \<lparr>width = 67108861, height = 11\<rparr>
   \<and> bufferSizeOverflows example_view \<lparr>width = 67108861, height = 11\<rparr>
   \<and> m_visibleDimension
         (setVisibleDimension example_env \<lparr>width = 67108861, height = 11\<rparr> example_view)
       = \<lparr>width = 67108861, height = 11\<rparr>
   \<and> rect_width (m_rectDimension
         (setVisibleDimension example_env \<lparr>width = 67108861, height = 11\<rparr> example_view))
       = - (2 ^ 31)
   \<and> events (setVisibleDimension example_env \<lparr>width = 67108861, height = 11\<rparr> example_view)
       = events example_view"
proof -
  have "setVisibleDimension example_env \<lparr>width = 67108861, height = 11\<rparr> example_view
        = updateGeometry example_env \<lparr>width = 67108861, height = 11\<rparr> example_view"
    by (simp add: setVisibleDimension_def example_view_eq Size_less_def Size_square_def
        signed_modulo_int_def signed_divide_int_def)
  then show ?thesis
    by (simp add: updateGeometry_def bufferTooLarge_def bufferSizeOverflows_def example_view_eq
        blank_view_def example_env_def Let_def Size_add_def Size_mul_def s32_def SPRITE_SIZE_def
        u8_def refreshVisibleTiles_def refreshVisibleCreatures_def)
qed

end
